theory Spec2Isabelle
  imports Main "HOL-Library.Word" "HOL-Library.Monad_Syntax"
begin

section \<open>JavaScript values and strings\<close>

text \<open>
  A JavaScript string is a sequence of UTF-16 code units, and \<^verbatim>\<open>.length\<close> counts
  code units. Strings are therefore lists of 16-bit words. \<open>lit\<close> embeds an ASCII
  literal of the source.
\<close>

type_synonym codeunit = "16 word"
type_synonym jsstring = "codeunit list"

definition lit :: "string \<Rightarrow> jsstring" where
  "lit s = map of_char s"

text \<open>
  The values a form state or a parsed JSON document can hold. \<open>JUndefined\<close> is
  also what reading an absent key gives. Only the type tag of a number is ever
  inspected by the code modelled here, so numbers carry an integer.
\<close>

datatype jsval =
    JUndefined
  | JNull
  | JBool bool
  | JNum int
  | JStr jsstring
  | JArr "jsval list"
  | JObj "(jsstring \<times> jsval) list"

section \<open>String primitives used by the intake page\<close>

text \<open>
  \<^verbatim>\<open>String.prototype.trim\<close> removes leading and trailing white space and line
  terminators: TAB, LF, VT, FF, CR, SPACE, NBSP, the Unicode space separators
  (U+1680, U+2000..U+200A, U+202F, U+205F, U+3000), LS, PS and the BOM.
\<close>

definition is_ws :: "codeunit \<Rightarrow> bool" where
  "is_ws c \<longleftrightarrow>
     (0x9 \<le> c \<and> c \<le> 0xD) \<or> c = 0x20 \<or> c = 0xA0 \<or> c = 0x1680
     \<or> (0x2000 \<le> c \<and> c \<le> 0x200A) \<or> c = 0x2028 \<or> c = 0x2029
     \<or> c = 0x202F \<or> c = 0x205F \<or> c = 0x3000 \<or> c = 0xFEFF"

definition trim :: "jsstring \<Rightarrow> jsstring" where
  "trim s = rev (dropWhile is_ws (rev (dropWhile is_ws s)))"

text \<open>
  \<^verbatim>\<open>s.split(",")\<close> with a one-unit separator: scan the string, closing the
  current segment at every separator; the segment open at the end is pushed too,
  so the empty string gives one empty segment.
\<close>

definition comma :: codeunit where
  "comma = 0x2C"

fun split_loop :: "codeunit \<Rightarrow> jsstring \<Rightarrow> jsstring \<Rightarrow> jsstring list" where
  "split_loop sep cur [] = [cur]"
| "split_loop sep cur (c # cs) =
     (if c = sep then cur # split_loop sep [] cs else split_loop sep (cur @ [c]) cs)"

definition split :: "codeunit \<Rightarrow> jsstring \<Rightarrow> jsstring list" where
  "split sep s = split_loop sep [] s"


text \<open>
  A template literal prints an \<^verbatim>\<open>undefined\<close> operand as the text
  \<^verbatim>\<open>undefined\<close>. An optional string is \<open>None\<close> when undefined.
\<close>

definition template_str :: "jsstring option \<Rightarrow> jsstring" where
  "template_str v = (case v of None \<Rightarrow> lit ''undefined'' | Some s \<Rightarrow> s)"

text \<open>\<^verbatim>\<open>!v\<close> for an optional string: undefined and the empty string are falsy.\<close>

definition falsy :: "jsstring option \<Rightarrow> bool" where
  "falsy v \<longleftrightarrow> (case v of None \<Rightarrow> True | Some s \<Rightarrow> s = [])"

section \<open>The schema library as the intake page uses it\<close>

text \<open>
  The schema is built with the zod combinators \<^verbatim>\<open>literal\<close>, \<^verbatim>\<open>enum\<close>,
  \<^verbatim>\<open>string\<close> (with \<^verbatim>\<open>trim\<close>, \<^verbatim>\<open>min\<close>, \<^verbatim>\<open>optional\<close>), \<^verbatim>\<open>boolean\<close>,
  \<^verbatim>\<open>array\<close> (with \<^verbatim>\<open>min\<close>), \<^verbatim>\<open>object\<close> and \<^verbatim>\<open>superRefine\<close>. A parser adds
  issues and returns a status: \<open>OK\<close> with the value, \<open>DIRTY\<close> with the value
  when only a check such as \<^verbatim>\<open>min\<close> failed, \<open>INVALID\<close> (aborted) on a type,
  literal or enum mismatch. An issue has a code, the path of the offending
  value and the message given in the schema, if any (\<open>None\<close>: the library's
  default text).
\<close>

datatype ZodIssueCode = invalid_type | invalid_literal | invalid_enum_value | too_small | custom

datatype path_elem = Key jsstring | Index nat

record issue =
  code :: ZodIssueCode
  path :: "path_elem list"
  message :: "jsstring option"

datatype 'a parse_return = OK 'a | DIRTY 'a "issue list" | INVALID "issue list"

fun issues_of :: "'a parse_return \<Rightarrow> issue list" where
  "issues_of (OK v) = []"
| "issues_of (DIRTY v found) = found"
| "issues_of (INVALID found) = found"

fun value_of :: "'a parse_return \<Rightarrow> 'a option" where
  "value_of (OK v) = Some v"
| "value_of (DIRTY v found) = Some v"
| "value_of (INVALID found) = None"

definition mk_issue :: "ZodIssueCode \<Rightarrow> path_elem list \<Rightarrow> jsstring option \<Rightarrow> issue" where
  "mk_issue c p m = \<lparr>code = c, path = p, message = m\<rparr>"

definition z_literal :: "jsstring \<Rightarrow> path_elem list \<Rightarrow> jsval \<Rightarrow> jsstring parse_return" where
  "z_literal expected p v =
     (if v = JStr expected then OK expected else INVALID [mk_issue invalid_literal p None])"

definition z_enum :: "jsstring list \<Rightarrow> path_elem list \<Rightarrow> jsval \<Rightarrow> jsstring parse_return" where
  "z_enum options p v =
     (case v of
        JStr s \<Rightarrow> if s \<in> set options then OK s else INVALID [mk_issue invalid_enum_value p None]
      | _ \<Rightarrow> INVALID [mk_issue invalid_type p None])"

definition z_boolean :: "path_elem list \<Rightarrow> jsval \<Rightarrow> bool parse_return" where
  "z_boolean p v = (case v of JBool b \<Rightarrow> OK b | _ \<Rightarrow> INVALID [mk_issue invalid_type p None])"

text \<open>\<^verbatim>\<open>z.string()\<close>: any string, unchanged.\<close>

definition z_string :: "path_elem list \<Rightarrow> jsval \<Rightarrow> jsstring parse_return" where
  "z_string p v = (case v of JStr s \<Rightarrow> OK s | _ \<Rightarrow> INVALID [mk_issue invalid_type p None])"

text \<open>\<^verbatim>\<open>z.string().trim()\<close>: any string, trimmed; emptiness is not checked.\<close>

definition z_string_trim :: "path_elem list \<Rightarrow> jsval \<Rightarrow> jsstring parse_return" where
  "z_string_trim p v =
     (case v of JStr s \<Rightarrow> OK (trim s) | _ \<Rightarrow> INVALID [mk_issue invalid_type p None])"

text \<open>\<^verbatim>\<open>z.string().trim().optional()\<close>: undefined passes as undefined.\<close>

definition z_string_trim_optional ::
  "path_elem list \<Rightarrow> jsval \<Rightarrow> jsstring option parse_return" where
  "z_string_trim_optional p v =
     (case v of
        JUndefined \<Rightarrow> OK None
      | JStr s \<Rightarrow> OK (Some (trim s))
      | _ \<Rightarrow> INVALID [mk_issue invalid_type p None])"

text \<open>\<^verbatim>\<open>z.string().min(n, msg)\<close>: the length check marks the result dirty.\<close>

definition z_string_min ::
  "nat \<Rightarrow> jsstring \<Rightarrow> path_elem list \<Rightarrow> jsval \<Rightarrow> jsstring parse_return" where
  "z_string_min n msg p v =
     (case v of
        JStr s \<Rightarrow> if length s < n then DIRTY s [mk_issue too_small p (Some msg)] else OK s
      | _ \<Rightarrow> INVALID [mk_issue invalid_type p None])"

text \<open>
  \<^verbatim>\<open>z.array(elem).min(n, msg)\<close>: the length check comes first, then every
  element is parsed at its index; one aborted element aborts the array.
\<close>

fun z_elements ::
  "(path_elem list \<Rightarrow> jsval \<Rightarrow> 'a parse_return) \<Rightarrow> path_elem list \<Rightarrow> nat \<Rightarrow> jsval list
     \<Rightarrow> 'a parse_return list" where
  "z_elements elem p i [] = []"
| "z_elements elem p i (x # xs) = elem (p @ [Index i]) x # z_elements elem p (Suc i) xs"

definition z_array_min ::
  "(path_elem list \<Rightarrow> jsval \<Rightarrow> 'a parse_return) \<Rightarrow> nat \<Rightarrow> jsstring option
     \<Rightarrow> path_elem list \<Rightarrow> jsval \<Rightarrow> 'a list parse_return" where
  "z_array_min elem n msg p v =
     (case v of
        JArr xs \<Rightarrow>
          (let small = (if length xs < n then [mk_issue too_small p msg] else []);
               rs = z_elements elem p 0 xs;
               found = small @ concat (map issues_of rs)
           in case those (map value_of rs) of
                None \<Rightarrow> INVALID found
              | Some vs \<Rightarrow> if found = [] then OK vs else DIRTY vs found)
      | _ \<Rightarrow> INVALID [mk_issue invalid_type p None])"

section \<open>The intake schema\<close>

definition CRM_ENUM :: "jsstring list" where
  "CRM_ENUM = [lit ''hubspot'', lit ''salesforce'', lit ''other'']"

definition CONTACT_CENTER_ENUM :: "jsstring list" where
  "CONTACT_CENTER_ENUM =
     [lit ''ringcentral'', lit ''five9'', lit ''genesys'', lit ''nice'', lit ''other'']"

definition AGENT_WORKSPACE_ENUM :: "jsstring list" where
  "AGENT_WORKSPACE_ENUM =
     [lit ''native_ccp_desktop'', lit ''embedded_crm_panel'', lit ''custom_workspace'',
      lit ''hybrid_workspace'', lit ''unknown'']"

definition CRM_ACTIVITY_ENUM :: "jsstring list" where
  "CRM_ACTIVITY_ENUM = [lit ''engagement'', lit ''task'', lit ''note'']"

definition OWNER_STRATEGY_ENUM :: "jsstring list" where
  "OWNER_STRATEGY_ENUM = [lit ''map_agent_email'', lit ''fixed_owner'', lit ''unassigned'']"

definition PHONE_NORM_ENUM :: "jsstring list" where
  "PHONE_NORM_ENUM = [lit ''us_e164'', lit ''as_is'', lit ''other'']"

definition CONTEXT_PLACEMENT_ENUM :: "jsstring list" where
  "CONTEXT_PLACEMENT_ENUM = [lit ''interaction_tab'', lit ''sidebar'', lit ''unknown'']"

definition VOLUME_ENUM :: "jsstring list" where
  "VOLUME_ENUM = [lit ''lt_100'', lit ''100_1000'', lit ''1000_10000'', lit ''gt_10000'']"

definition LATENCY_ENUM :: "jsstring list" where
  "LATENCY_ENUM = [lit ''best_effort'', lit ''under_2s'', lit ''under_500ms'']"

definition SENSITIVITY_ENUM :: "jsstring list" where
  "SENSITIVITY_ENUM = [lit ''low'', lit ''pii'', lit ''regulated'']"

definition LOGGING_ENUM :: "jsstring list" where
  "LOGGING_ENUM = [lit ''mask_pii'', lit ''no_payload_logging'']"

text \<open>
  The form values handed to the schema: an object read key by key, each key
  holding any value or none (\<open>JUndefined\<close>). Keys the schema does not declare
  are dropped by the object parser and are not modelled.
\<close>

record RawIntake =
  raw_mode :: jsval
  raw_crm :: jsval
  raw_otherCrmName :: jsval
  raw_contactCenter :: jsval
  raw_otherContactCenterName :: jsval
  raw_agentWorkspace :: jsval
  raw_environment :: jsval
  raw_direction :: jsval
  raw_voiceOnly :: jsval
  raw_crmActivityObjectType :: jsval
  raw_subjectTemplate :: jsval
  raw_associations :: jsval
  raw_matchingStrategy :: jsval
  raw_phoneNormalization :: jsval
  raw_externalIdField :: jsval
  raw_contextFields :: jsval
  raw_customContextFields :: jsval
  raw_contextPlacement :: jsval
  raw_ownerStrategy :: jsval
  raw_fixedOwner :: jsval
  raw_storeCallId :: jsval
  raw_callIdField :: jsval
  raw_expectedVolume :: jsval
  raw_idempotencyKey :: jsval
  raw_latencyTarget :: jsval
  raw_dataSensitivity :: jsval
  raw_logging :: jsval

text \<open>
  \<^verbatim>\<open>type IntakeForm = z.infer<typeof IntakeSchema>\<close>: the parsed data. TypeScript
  types are erased at run time, so an enum field is the string it holds; an
  optional string is \<open>None\<close> when undefined.
\<close>

record IntakeForm =
  mode :: jsstring
  crm :: jsstring
  otherCrmName :: "jsstring option"
  contactCenter :: jsstring
  otherContactCenterName :: "jsstring option"
  agentWorkspace :: jsstring
  environment :: jsstring
  direction :: jsstring
  voiceOnly :: bool
  crmActivityObjectType :: jsstring
  subjectTemplate :: jsstring
  associations :: "jsstring list"
  matchingStrategy :: "jsstring list"
  phoneNormalization :: jsstring
  externalIdField :: "jsstring option"
  contextFields :: "jsstring list"
  customContextFields :: "jsstring option"
  contextPlacement :: jsstring
  ownerStrategy :: jsstring
  fixedOwner :: "jsstring option"
  storeCallId :: bool
  callIdField :: jsstring
  expectedVolume :: jsstring
  idempotencyKey :: jsstring
  latencyTarget :: jsstring
  dataSensitivity :: jsstring
  logging :: jsstring

definition key :: "string \<Rightarrow> path_elem list" where
  "key k = [Key (lit k)]"

text \<open>
  The shape of \<^verbatim>\<open>IntakeSchema\<close>, one definition per declared key: the key's
  schema applied to the value read at that key.
\<close>

definition field_mode :: "RawIntake \<Rightarrow> jsstring parse_return" where
  "field_mode raw =
     z_literal (lit ''feedback_only'') (key ''mode'') (raw_mode raw)"

definition field_crm :: "RawIntake \<Rightarrow> jsstring parse_return" where
  "field_crm raw =
     z_enum CRM_ENUM (key ''crm'') (raw_crm raw)"

definition field_otherCrmName :: "RawIntake \<Rightarrow> (jsstring option) parse_return" where
  "field_otherCrmName raw =
     z_string_trim_optional (key ''otherCrmName'') (raw_otherCrmName raw)"

definition field_contactCenter :: "RawIntake \<Rightarrow> jsstring parse_return" where
  "field_contactCenter raw =
     z_enum CONTACT_CENTER_ENUM (key ''contactCenter'') (raw_contactCenter raw)"

definition field_otherContactCenterName :: "RawIntake \<Rightarrow> (jsstring option) parse_return" where
  "field_otherContactCenterName raw =
     z_string_trim_optional (key ''otherContactCenterName'') (raw_otherContactCenterName raw)"

definition field_agentWorkspace :: "RawIntake \<Rightarrow> jsstring parse_return" where
  "field_agentWorkspace raw =
     z_enum AGENT_WORKSPACE_ENUM (key ''agentWorkspace'') (raw_agentWorkspace raw)"

definition field_environment :: "RawIntake \<Rightarrow> jsstring parse_return" where
  "field_environment raw =
     z_enum [lit ''sandbox'', lit ''demo''] (key ''environment'') (raw_environment raw)"

definition field_direction :: "RawIntake \<Rightarrow> jsstring parse_return" where
  "field_direction raw =
     z_enum [lit ''inbound'', lit ''outbound'', lit ''both''] (key ''direction'') (raw_direction raw)"

definition field_voiceOnly :: "RawIntake \<Rightarrow> bool parse_return" where
  "field_voiceOnly raw =
     z_boolean (key ''voiceOnly'') (raw_voiceOnly raw)"

definition field_crmActivityObjectType :: "RawIntake \<Rightarrow> jsstring parse_return" where
  "field_crmActivityObjectType raw =
     z_enum CRM_ACTIVITY_ENUM (key ''crmActivityObjectType'') (raw_crmActivityObjectType raw)"

definition field_subjectTemplate :: "RawIntake \<Rightarrow> jsstring parse_return" where
  "field_subjectTemplate raw =
     z_string_min 5 (lit ''Subject template is required'') (key ''subjectTemplate'') (raw_subjectTemplate raw)"

definition field_associations :: "RawIntake \<Rightarrow> (jsstring list) parse_return" where
  "field_associations raw =
     z_array_min (z_enum [lit ''contact'', lit ''company'', lit ''deal'']) 1
       (Some (lit ''Select at least one association'')) (key ''associations'') (raw_associations raw)"

definition field_matchingStrategy :: "RawIntake \<Rightarrow> (jsstring list) parse_return" where
  "field_matchingStrategy raw =
     z_array_min (z_enum [lit ''ani_phone_match'', lit ''external_id'']) 1 None (key ''matchingStrategy'') (raw_matchingStrategy raw)"

definition field_phoneNormalization :: "RawIntake \<Rightarrow> jsstring parse_return" where
  "field_phoneNormalization raw =
     z_enum PHONE_NORM_ENUM (key ''phoneNormalization'') (raw_phoneNormalization raw)"

definition field_externalIdField :: "RawIntake \<Rightarrow> (jsstring option) parse_return" where
  "field_externalIdField raw =
     z_string_trim_optional (key ''externalIdField'') (raw_externalIdField raw)"

definition field_contextFields :: "RawIntake \<Rightarrow> (jsstring list) parse_return" where
  "field_contextFields raw =
     z_array_min z_string 1 (Some (lit ''Select at least one context field'')) (key ''contextFields'') (raw_contextFields raw)"

definition field_customContextFields :: "RawIntake \<Rightarrow> (jsstring option) parse_return" where
  "field_customContextFields raw =
     z_string_trim_optional (key ''customContextFields'') (raw_customContextFields raw)"

definition field_contextPlacement :: "RawIntake \<Rightarrow> jsstring parse_return" where
  "field_contextPlacement raw =
     z_enum CONTEXT_PLACEMENT_ENUM (key ''contextPlacement'') (raw_contextPlacement raw)"

definition field_ownerStrategy :: "RawIntake \<Rightarrow> jsstring parse_return" where
  "field_ownerStrategy raw =
     z_enum OWNER_STRATEGY_ENUM (key ''ownerStrategy'') (raw_ownerStrategy raw)"

definition field_fixedOwner :: "RawIntake \<Rightarrow> (jsstring option) parse_return" where
  "field_fixedOwner raw =
     z_string_trim_optional (key ''fixedOwner'') (raw_fixedOwner raw)"

definition field_storeCallId :: "RawIntake \<Rightarrow> bool parse_return" where
  "field_storeCallId raw =
     z_boolean (key ''storeCallId'') (raw_storeCallId raw)"

definition field_callIdField :: "RawIntake \<Rightarrow> jsstring parse_return" where
  "field_callIdField raw =
     z_string_trim (key ''callIdField'') (raw_callIdField raw)"

definition field_expectedVolume :: "RawIntake \<Rightarrow> jsstring parse_return" where
  "field_expectedVolume raw =
     z_enum VOLUME_ENUM (key ''expectedVolume'') (raw_expectedVolume raw)"

definition field_idempotencyKey :: "RawIntake \<Rightarrow> jsstring parse_return" where
  "field_idempotencyKey raw =
     z_string_trim (key ''idempotencyKey'') (raw_idempotencyKey raw)"

definition field_latencyTarget :: "RawIntake \<Rightarrow> jsstring parse_return" where
  "field_latencyTarget raw =
     z_enum LATENCY_ENUM (key ''latencyTarget'') (raw_latencyTarget raw)"

definition field_dataSensitivity :: "RawIntake \<Rightarrow> jsstring parse_return" where
  "field_dataSensitivity raw =
     z_enum SENSITIVITY_ENUM (key ''dataSensitivity'') (raw_dataSensitivity raw)"

definition field_logging :: "RawIntake \<Rightarrow> jsstring parse_return" where
  "field_logging raw =
     z_enum LOGGING_ENUM (key ''logging'') (raw_logging raw)"

text \<open>
  \<^verbatim>\<open>z.object({...})\<close>: every declared key is parsed, in declaration order, and
  every issue is kept; the object is aborted when one of its fields is.
\<close>

definition IntakeSchema_object :: "RawIntake \<Rightarrow> IntakeForm parse_return" where
  "IntakeSchema_object raw =
     (let found =
            issues_of (field_mode raw) @ issues_of (field_crm raw)
            @ issues_of (field_otherCrmName raw) @ issues_of (field_contactCenter raw)
            @ issues_of (field_otherContactCenterName raw)
            @ issues_of (field_agentWorkspace raw) @ issues_of (field_environment raw)
            @ issues_of (field_direction raw) @ issues_of (field_voiceOnly raw)
            @ issues_of (field_crmActivityObjectType raw)
            @ issues_of (field_subjectTemplate raw) @ issues_of (field_associations raw)
            @ issues_of (field_matchingStrategy raw)
            @ issues_of (field_phoneNormalization raw)
            @ issues_of (field_externalIdField raw) @ issues_of (field_contextFields raw)
            @ issues_of (field_customContextFields raw)
            @ issues_of (field_contextPlacement raw) @ issues_of (field_ownerStrategy raw)
            @ issues_of (field_fixedOwner raw) @ issues_of (field_storeCallId raw)
            @ issues_of (field_callIdField raw) @ issues_of (field_expectedVolume raw)
            @ issues_of (field_idempotencyKey raw) @ issues_of (field_latencyTarget raw)
            @ issues_of (field_dataSensitivity raw) @ issues_of (field_logging raw);
          data = do {
            v_mode \<leftarrow> value_of (field_mode raw);
            v_crm \<leftarrow> value_of (field_crm raw);
            v_otherCrmName \<leftarrow> value_of (field_otherCrmName raw);
            v_contactCenter \<leftarrow> value_of (field_contactCenter raw);
            v_otherContactCenterName \<leftarrow> value_of (field_otherContactCenterName raw);
            v_agentWorkspace \<leftarrow> value_of (field_agentWorkspace raw);
            v_environment \<leftarrow> value_of (field_environment raw);
            v_direction \<leftarrow> value_of (field_direction raw);
            v_voiceOnly \<leftarrow> value_of (field_voiceOnly raw);
            v_crmActivityObjectType \<leftarrow> value_of (field_crmActivityObjectType raw);
            v_subjectTemplate \<leftarrow> value_of (field_subjectTemplate raw);
            v_associations \<leftarrow> value_of (field_associations raw);
            v_matchingStrategy \<leftarrow> value_of (field_matchingStrategy raw);
            v_phoneNormalization \<leftarrow> value_of (field_phoneNormalization raw);
            v_externalIdField \<leftarrow> value_of (field_externalIdField raw);
            v_contextFields \<leftarrow> value_of (field_contextFields raw);
            v_customContextFields \<leftarrow> value_of (field_customContextFields raw);
            v_contextPlacement \<leftarrow> value_of (field_contextPlacement raw);
            v_ownerStrategy \<leftarrow> value_of (field_ownerStrategy raw);
            v_fixedOwner \<leftarrow> value_of (field_fixedOwner raw);
            v_storeCallId \<leftarrow> value_of (field_storeCallId raw);
            v_callIdField \<leftarrow> value_of (field_callIdField raw);
            v_expectedVolume \<leftarrow> value_of (field_expectedVolume raw);
            v_idempotencyKey \<leftarrow> value_of (field_idempotencyKey raw);
            v_latencyTarget \<leftarrow> value_of (field_latencyTarget raw);
            v_dataSensitivity \<leftarrow> value_of (field_dataSensitivity raw);
            v_logging \<leftarrow> value_of (field_logging raw);
            Some \<lparr>mode = v_mode, crm = v_crm, otherCrmName = v_otherCrmName,
              contactCenter = v_contactCenter,
              otherContactCenterName = v_otherContactCenterName,
              agentWorkspace = v_agentWorkspace, environment = v_environment,
              direction = v_direction, voiceOnly = v_voiceOnly,
              crmActivityObjectType = v_crmActivityObjectType,
              subjectTemplate = v_subjectTemplate, associations = v_associations,
              matchingStrategy = v_matchingStrategy,
              phoneNormalization = v_phoneNormalization,
              externalIdField = v_externalIdField, contextFields = v_contextFields,
              customContextFields = v_customContextFields,
              contextPlacement = v_contextPlacement, ownerStrategy = v_ownerStrategy,
              fixedOwner = v_fixedOwner, storeCallId = v_storeCallId,
              callIdField = v_callIdField, expectedVolume = v_expectedVolume,
              idempotencyKey = v_idempotencyKey, latencyTarget = v_latencyTarget,
              dataSensitivity = v_dataSensitivity, logging = v_logging\<rparr>
          }
      in case data of
           None \<Rightarrow> INVALID found
         | Some val \<Rightarrow> if found = [] then OK val else DIRTY val found)"

text \<open>
  The \<^verbatim>\<open>superRefine\<close> callback: five cross-field rules, each adding its issue
  to the context it is handed.
\<close>

definition addIssue :: "issue list \<Rightarrow> issue \<Rightarrow> issue list" where
  "addIssue ctx i = ctx @ [i]"

definition superRefine :: "IntakeForm \<Rightarrow> issue list \<Rightarrow> issue list" where
  "superRefine val ctx0 =
     (let ctx1 =
            (if crm val = lit ''other'' \<and> falsy (otherCrmName val)
             then addIssue ctx0 (mk_issue custom (key ''otherCrmName'')
                    (Some (lit ''Please specify the CRM name'')))
             else ctx0);
          ctx2 =
            (if contactCenter val = lit ''other'' \<and> falsy (otherContactCenterName val)
             then addIssue ctx1 (mk_issue custom (key ''otherContactCenterName'')
                    (Some (lit ''Please specify the contact center name'')))
             else ctx1);
          ctx3 =
            (if lit ''external_id'' \<in> set (matchingStrategy val) \<and> falsy (externalIdField val)
             then addIssue ctx2 (mk_issue custom (key ''externalIdField'')
                    (Some (lit ''External ID field is required when using external ID matching'')))
             else ctx2);
          ctx4 =
            (if ownerStrategy val = lit ''fixed_owner'' \<and> falsy (fixedOwner val)
             then addIssue ctx3 (mk_issue custom (key ''fixedOwner'')
                    (Some (lit ''Fixed owner is required when using fixed owner strategy'')))
             else ctx3);
          ctx5 =
            (if dataSensitivity val = lit ''regulated''
                \<and> logging val \<noteq> lit ''no_payload_logging''
             then addIssue ctx4 (mk_issue custom (key ''logging'')
                    (Some (lit ''For regulated data, use 'No payload logging' (recommended).'')))
             else ctx4)
      in ctx5)"

text \<open>
  \<^verbatim>\<open>IntakeSchema.safeParse(values)\<close>: the refinement runs unless the object
  was aborted; the result is the data when no issue was raised, the issues
  otherwise. Nothing is thrown.
\<close>

definition safeParse :: "RawIntake \<Rightarrow> issue list + IntakeForm" where
  "safeParse raw =
     (case IntakeSchema_object raw of
        INVALID found \<Rightarrow> Inl found
      | DIRTY val found \<Rightarrow> Inl (superRefine val found)
      | OK val \<Rightarrow> (case superRefine val [] of [] \<Rightarrow> Inr val | found \<Rightarrow> Inl found))"

text \<open>An error keyed to a field: an issue whose path is that key.\<close>

definition keyed_to :: "string \<Rightarrow> issue list \<Rightarrow> bool" where
  "keyed_to k found \<longleftrightarrow> (\<exists>i \<in> set found. path i = key k)"

section \<open>The normalizer\<close>

text \<open>
  The object \<^verbatim>\<open>buildNormalizedIntake\<close> returns, group by group. A field of a
  group is named after the group, since several groups and the input share
  key names. A field that may hold \<^verbatim>\<open>null\<close> is \<open>nullable\<close>.
\<close>

datatype 'a nullable = Null | Val 'a

record Systems =
  systems_crm :: jsstring
  systems_otherCrmName :: "jsstring nullable"
  systems_contactCenter :: jsstring
  systems_otherContactCenterName :: "jsstring nullable"
  systems_agentWorkspace :: jsstring
  systems_environment :: jsstring

record Trigger =
  trigger_event :: jsstring
  trigger_interactionType :: jsstring
  trigger_direction :: jsstring

record CrmActivity =
  crmActivity_objectType :: jsstring
  crmActivity_subjectTemplate :: jsstring
  crmActivity_associations :: "jsstring list"

record Matching =
  matching_strategy :: "jsstring list"
  matching_phoneNormalization :: jsstring
  matching_externalIdField :: "jsstring nullable"

record ContextInjection =
  contextInjection_fields :: "jsstring list"
  contextInjection_customFields :: "jsstring list"
  contextInjection_placement :: jsstring

record Ownership =
  ownership_ownerStrategy :: jsstring
  ownership_fixedOwner :: "jsstring nullable"
  ownership_storeInteractionId :: bool
  ownership_interactionIdField :: "jsstring nullable"

record Reliability =
  reliability_expectedVolume :: jsstring
  reliability_idempotencyKey :: jsstring
  reliability_latencyTarget :: jsstring

record Security =
  security_dataSensitivity :: jsstring
  security_logging :: jsstring

record Normalized =
  version :: jsstring
  normalized_mode :: jsstring
  systems :: Systems
  trigger :: Trigger
  crmActivity :: CrmActivity
  matching :: Matching
  contextInjection :: ContextInjection
  ownership :: Ownership
  reliability :: Reliability
  security :: Security
  warnings :: "jsstring list"

text \<open>The three warning texts; the dash in two of them is U+2014.\<close>

definition environment_warning :: jsstring where
  "environment_warning = lit ''Evaluation-only: environment must be sandbox/demo.''"

definition agentWorkspace_warning :: jsstring where
  "agentWorkspace_warning =
     lit ''Agent workspace not determined '' @ [0x2014]
     @ lit '' context injection placement may vary by platform.''"

definition regulated_warning :: jsstring where
  "regulated_warning =
     lit ''Regulated data indicated '' @ [0x2014]
     @ lit '' security review required before production use.''"

text \<open>\<^verbatim>\<open>normalized.warnings.push(w)\<close>\<close>

definition push_warning :: "Normalized \<Rightarrow> jsstring \<Rightarrow> Normalized" where
  "push_warning n w = n\<lparr>warnings := warnings n @ [w]\<rparr>"

text \<open>
  \<^verbatim>\<open>(input.customContextFields || "").split(",").map((s) => s.trim()).filter(Boolean)\<close>
\<close>

definition or_empty :: "jsstring option \<Rightarrow> jsstring" where
  "or_empty v = (case v of None \<Rightarrow> [] | Some s \<Rightarrow> if s = [] then [] else s)"

definition customFields_of :: "jsstring option \<Rightarrow> jsstring list" where
  "customFields_of v = filter (\<lambda>s. s \<noteq> []) (map trim (split comma (or_empty v)))"

text \<open>\<^verbatim>\<open>v ?? null\<close> for an optional string.\<close>

definition or_null :: "jsstring option \<Rightarrow> jsstring nullable" where
  "or_null v = (case v of None \<Rightarrow> Null | Some s \<Rightarrow> Val s)"

definition buildNormalizedIntake :: "IntakeForm \<Rightarrow> Normalized" where
  "buildNormalizedIntake input =
     (let customFields = customFields_of (customContextFields input);
          contactCenterName =
            (if contactCenter input = lit ''other'' then otherContactCenterName input
             else Some (contactCenter input));
          interactionType = (if voiceOnly input then lit ''voice'' else lit ''generic'');
          eventType = template_str contactCenterName @ lit ''.interaction.accepted'';
          normalized = \<lparr>
            version = lit ''v1'',
            normalized_mode = mode input,
            systems = \<lparr>
              systems_crm = crm input,
              systems_otherCrmName =
                (if crm input = lit ''other'' then or_null (otherCrmName input) else Null),
              systems_contactCenter = contactCenter input,
              systems_otherContactCenterName =
                (if contactCenter input = lit ''other''
                 then or_null (otherContactCenterName input) else Null),
              systems_agentWorkspace = agentWorkspace input,
              systems_environment = environment input\<rparr>,
            trigger = \<lparr>
              trigger_event = eventType,
              trigger_interactionType = interactionType,
              trigger_direction = direction input\<rparr>,
            crmActivity = \<lparr>
              crmActivity_objectType = crmActivityObjectType input,
              crmActivity_subjectTemplate = subjectTemplate input,
              crmActivity_associations = associations input\<rparr>,
            matching = \<lparr>
              matching_strategy = matchingStrategy input,
              matching_phoneNormalization = phoneNormalization input,
              matching_externalIdField =
                (if lit ''external_id'' \<in> set (matchingStrategy input)
                 then or_null (externalIdField input) else Null)\<rparr>,
            contextInjection = \<lparr>
              contextInjection_fields = contextFields input,
              contextInjection_customFields = customFields,
              contextInjection_placement = contextPlacement input\<rparr>,
            ownership = \<lparr>
              ownership_ownerStrategy = ownerStrategy input,
              ownership_fixedOwner =
                (if ownerStrategy input = lit ''fixed_owner'' then or_null (fixedOwner input)
                 else Null),
              ownership_storeInteractionId = storeCallId input,
              ownership_interactionIdField =
                (if storeCallId input then Val (callIdField input) else Null)\<rparr>,
            reliability = \<lparr>
              reliability_expectedVolume = expectedVolume input,
              reliability_idempotencyKey = idempotencyKey input,
              reliability_latencyTarget = latencyTarget input\<rparr>,
            security = \<lparr>
              security_dataSensitivity = dataSensitivity input,
              security_logging = logging input\<rparr>,
            warnings = []\<rparr>;
          normalized1 =
            (if systems_environment (systems normalized) \<noteq> lit ''sandbox''
                \<and> systems_environment (systems normalized) \<noteq> lit ''demo''
             then push_warning normalized environment_warning else normalized);
          normalized2 =
            (if systems_agentWorkspace (systems normalized1) = lit ''unknown''
             then push_warning normalized1 agentWorkspace_warning else normalized1);
          normalized3 =
            (if security_dataSensitivity (security normalized2) = lit ''regulated''
             then push_warning normalized2 regulated_warning else normalized2)
      in normalized3)"

text \<open>
  The page's use of both (\<^verbatim>\<open>useMemo\<close> and \<^verbatim>\<open>onSubmit\<close>): parse, and normalize
  the parsed data on success.
\<close>

definition normalize_values :: "RawIntake \<Rightarrow> Normalized option" where
  "normalize_values v =
     (case safeParse v of Inl found \<Rightarrow> None | Inr data \<Rightarrow> Some (buildNormalizedIntake data))"

text \<open>The page's default form values.\<close>

definition defaultValues :: RawIntake where
  "defaultValues = \<lparr>
     raw_mode = JStr (lit ''feedback_only''),
     raw_crm = JStr (lit ''hubspot''),
     raw_otherCrmName = JUndefined,
     raw_contactCenter = JStr (lit ''ringcentral''),
     raw_otherContactCenterName = JUndefined,
     raw_agentWorkspace = JStr (lit ''native_ccp_desktop''),
     raw_environment = JStr (lit ''sandbox''),
     raw_direction = JStr (lit ''inbound''),
     raw_voiceOnly = JBool True,
     raw_crmActivityObjectType = JStr (lit ''engagement''),
     raw_subjectTemplate = JStr (lit ''Interaction from {{ani}} to {{dnis}}''),
     raw_associations = JArr [JStr (lit ''contact'')],
     raw_matchingStrategy = JArr [JStr (lit ''ani_phone_match'')],
     raw_phoneNormalization = JStr (lit ''us_e164''),
     raw_externalIdField = JUndefined,
     raw_contextFields =
       JArr [JStr (lit ''contact.fullName''), JStr (lit ''company.name''),
             JStr (lit ''contact.email''), JStr (lit ''stats.openDeals'')],
     raw_customContextFields = JUndefined,
     raw_contextPlacement = JStr (lit ''interaction_tab''),
     raw_ownerStrategy = JStr (lit ''map_agent_email''),
     raw_fixedOwner = JUndefined,
     raw_storeCallId = JBool True,
     raw_callIdField = JStr (lit ''interaction_id''),
     raw_expectedVolume = JStr (lit ''100_1000''),
     raw_idempotencyKey = JStr (lit ''interactionId''),
     raw_latencyTarget = JStr (lit ''under_2s''),
     raw_dataSensitivity = JStr (lit ''pii''),
     raw_logging = JStr (lit ''mask_pii'')\<rparr>"

section \<open>What the schema accepts\<close>

text \<open>
  A field parser accepts a value when it raises no issue and returns that
  value. \<open>fields_accept\<close> lists the 27 keys; \<open>rules_hold\<close> are the five
  cross-field rules of the refinement, as their conditions are written.
\<close>

definition accepts :: "'a parse_return \<Rightarrow> 'a \<Rightarrow> bool" where
  "accepts r v \<longleftrightarrow> issues_of r = [] \<and> value_of r = Some v"

definition fields_accept :: "RawIntake \<Rightarrow> IntakeForm \<Rightarrow> bool" where
  "fields_accept raw f \<longleftrightarrow>
     accepts (field_mode raw) (mode f)
     \<and> accepts (field_crm raw) (crm f)
     \<and> accepts (field_otherCrmName raw) (otherCrmName f)
     \<and> accepts (field_contactCenter raw) (contactCenter f)
     \<and> accepts (field_otherContactCenterName raw) (otherContactCenterName f)
     \<and> accepts (field_agentWorkspace raw) (agentWorkspace f)
     \<and> accepts (field_environment raw) (environment f)
     \<and> accepts (field_direction raw) (direction f)
     \<and> accepts (field_voiceOnly raw) (voiceOnly f)
     \<and> accepts (field_crmActivityObjectType raw) (crmActivityObjectType f)
     \<and> accepts (field_subjectTemplate raw) (subjectTemplate f)
     \<and> accepts (field_associations raw) (associations f)
     \<and> accepts (field_matchingStrategy raw) (matchingStrategy f)
     \<and> accepts (field_phoneNormalization raw) (phoneNormalization f)
     \<and> accepts (field_externalIdField raw) (externalIdField f)
     \<and> accepts (field_contextFields raw) (contextFields f)
     \<and> accepts (field_customContextFields raw) (customContextFields f)
     \<and> accepts (field_contextPlacement raw) (contextPlacement f)
     \<and> accepts (field_ownerStrategy raw) (ownerStrategy f)
     \<and> accepts (field_fixedOwner raw) (fixedOwner f)
     \<and> accepts (field_storeCallId raw) (storeCallId f)
     \<and> accepts (field_callIdField raw) (callIdField f)
     \<and> accepts (field_expectedVolume raw) (expectedVolume f)
     \<and> accepts (field_idempotencyKey raw) (idempotencyKey f)
     \<and> accepts (field_latencyTarget raw) (latencyTarget f)
     \<and> accepts (field_dataSensitivity raw) (dataSensitivity f)
     \<and> accepts (field_logging raw) (logging f)"

definition rules_hold :: "IntakeForm \<Rightarrow> bool" where
  "rules_hold val \<longleftrightarrow>
     \<not> (crm val = lit ''other'' \<and> falsy (otherCrmName val))
     \<and> \<not> (contactCenter val = lit ''other'' \<and> falsy (otherContactCenterName val))
     \<and> \<not> (lit ''external_id'' \<in> set (matchingStrategy val) \<and> falsy (externalIdField val))
     \<and> \<not> (ownerStrategy val = lit ''fixed_owner'' \<and> falsy (fixedOwner val))
     \<and> \<not> (dataSensitivity val = lit ''regulated'' \<and> logging val \<noteq> lit ''no_payload_logging'')"

section \<open>Example inputs\<close>

text \<open>The parsed data of the page's default form values.\<close>

definition defaultForm :: IntakeForm where
  "defaultForm = \<lparr>
     mode = lit ''feedback_only'',
     crm = lit ''hubspot'',
     otherCrmName = None,
     contactCenter = lit ''ringcentral'',
     otherContactCenterName = None,
     agentWorkspace = lit ''native_ccp_desktop'',
     environment = lit ''sandbox'',
     direction = lit ''inbound'',
     voiceOnly = True,
     crmActivityObjectType = lit ''engagement'',
     subjectTemplate = lit ''Interaction from {{ani}} to {{dnis}}'',
     associations = [lit ''contact''],
     matchingStrategy = [lit ''ani_phone_match''],
     phoneNormalization = lit ''us_e164'',
     externalIdField = None,
     contextFields =
       [lit ''contact.fullName'', lit ''company.name'', lit ''contact.email'',
        lit ''stats.openDeals''],
     customContextFields = None,
     contextPlacement = lit ''interaction_tab'',
     ownerStrategy = lit ''map_agent_email'',
     fixedOwner = None,
     storeCallId = True,
     callIdField = lit ''interaction_id'',
     expectedVolume = lit ''100_1000'',
     idempotencyKey = lit ''interactionId'',
     latencyTarget = lit ''under_2s'',
     dataSensitivity = lit ''pii'',
     logging = lit ''mask_pii''\<rparr>"

text \<open>
  Form values that take the other branches: a named contact center, external-ID
  matching, no owner (with a stray fixed owner left in the form), no stored
  interaction id, an undetermined workspace and regulated data.
\<close>

definition otherValues :: RawIntake where
  "otherValues = defaultValues\<lparr>
     raw_contactCenter := JStr (lit ''other''),
     raw_otherContactCenterName := JStr (lit '' Talkdesk ''),
     raw_agentWorkspace := JStr (lit ''unknown''),
     raw_voiceOnly := JBool False,
     raw_matchingStrategy := JArr [JStr (lit ''ani_phone_match''), JStr (lit ''external_id'')],
     raw_externalIdField := JStr (lit ''crm_customer_id ''),
     raw_ownerStrategy := JStr (lit ''unassigned''),
     raw_fixedOwner := JStr (lit ''queue-7''),
     raw_storeCallId := JBool False,
     raw_dataSensitivity := JStr (lit ''regulated''),
     raw_logging := JStr (lit ''no_payload_logging'')\<rparr>"

definition otherForm :: IntakeForm where
  "otherForm = defaultForm\<lparr>
     contactCenter := lit ''other'',
     otherContactCenterName := Some (lit ''Talkdesk''),
     agentWorkspace := lit ''unknown'',
     voiceOnly := False,
     matchingStrategy := [lit ''ani_phone_match'', lit ''external_id''],
     externalIdField := Some (lit ''crm_customer_id''),
     ownerStrategy := lit ''unassigned'',
     fixedOwner := Some (lit ''queue-7''),
     storeCallId := False,
     dataSensitivity := lit ''regulated'',
     logging := lit ''no_payload_logging''\<rparr>"


text \<open>
  Helpers for stating what the validator reports: the field values of an
  object that was not aborted, every issue \<open>safeParse\<close> returns, the issue of
  the regulated-data rule, and the issues that are not custom ones.
\<close>

definition fields_value :: "RawIntake \<Rightarrow> IntakeForm \<Rightarrow> bool" where
  "fields_value raw f \<longleftrightarrow>
     value_of (field_mode raw) = Some (mode f)
     \<and> value_of (field_crm raw) = Some (crm f)
     \<and> value_of (field_otherCrmName raw) = Some (otherCrmName f)
     \<and> value_of (field_contactCenter raw) = Some (contactCenter f)
     \<and> value_of (field_otherContactCenterName raw) = Some (otherContactCenterName f)
     \<and> value_of (field_agentWorkspace raw) = Some (agentWorkspace f)
     \<and> value_of (field_environment raw) = Some (environment f)
     \<and> value_of (field_direction raw) = Some (direction f)
     \<and> value_of (field_voiceOnly raw) = Some (voiceOnly f)
     \<and> value_of (field_crmActivityObjectType raw) = Some (crmActivityObjectType f)
     \<and> value_of (field_subjectTemplate raw) = Some (subjectTemplate f)
     \<and> value_of (field_associations raw) = Some (associations f)
     \<and> value_of (field_matchingStrategy raw) = Some (matchingStrategy f)
     \<and> value_of (field_phoneNormalization raw) = Some (phoneNormalization f)
     \<and> value_of (field_externalIdField raw) = Some (externalIdField f)
     \<and> value_of (field_contextFields raw) = Some (contextFields f)
     \<and> value_of (field_customContextFields raw) = Some (customContextFields f)
     \<and> value_of (field_contextPlacement raw) = Some (contextPlacement f)
     \<and> value_of (field_ownerStrategy raw) = Some (ownerStrategy f)
     \<and> value_of (field_fixedOwner raw) = Some (fixedOwner f)
     \<and> value_of (field_storeCallId raw) = Some (storeCallId f)
     \<and> value_of (field_callIdField raw) = Some (callIdField f)
     \<and> value_of (field_expectedVolume raw) = Some (expectedVolume f)
     \<and> value_of (field_idempotencyKey raw) = Some (idempotencyKey f)
     \<and> value_of (field_latencyTarget raw) = Some (latencyTarget f)
     \<and> value_of (field_dataSensitivity raw) = Some (dataSensitivity f)
     \<and> value_of (field_logging raw) = Some (logging f)"

definition reported :: "RawIntake \<Rightarrow> issue list" where
  "reported raw =
     issues_of (IntakeSchema_object raw)
     @ (case value_of (IntakeSchema_object raw) of None \<Rightarrow> [] | Some val \<Rightarrow> superRefine val [])"

definition logging_issue :: issue where
  "logging_issue =
     mk_issue custom (key ''logging'')
       (Some (lit ''For regulated data, use 'No payload logging' (recommended).''))"

definition no_custom :: "issue list \<Rightarrow> bool" where
  "no_custom found \<longleftrightarrow> (\<forall>i \<in> set found. code i \<noteq> custom)"

text \<open>
  Variants of the default values: a four-character subject, no call id field,
  regulated data with the default logging mode and its accepted counterpart,
  empty identifiers with the interaction id not stored.
\<close>

definition shortSubjectValues :: RawIntake where
  "shortSubjectValues = defaultValues\<lparr>raw_subjectTemplate := JStr (lit ''Call'')\<rparr>"

definition noCallIdValues :: RawIntake where
  "noCallIdValues = defaultValues\<lparr>raw_callIdField := JUndefined\<rparr>"

definition regulatedValues :: RawIntake where
  "regulatedValues = defaultValues\<lparr>raw_dataSensitivity := JStr (lit ''regulated'')\<rparr>"

text \<open>Regulated data with the default logging mode and a CRM outside the enum.\<close>

definition zohoValues :: RawIntake where
  "zohoValues = defaultValues\<lparr>
     raw_crm := JStr (lit ''zoho''), raw_dataSensitivity := JStr (lit ''regulated'')\<rparr>"

definition regulatedForm :: IntakeForm where
  "regulatedForm =
     defaultForm\<lparr>dataSensitivity := lit ''regulated'', logging := lit ''no_payload_logging''\<rparr>"

definition emptyIdValues :: RawIntake where
  "emptyIdValues = defaultValues\<lparr>
     raw_storeCallId := JBool False, raw_callIdField := JStr [], raw_idempotencyKey := JStr []\<rparr>"

definition emptyIdForm :: IntakeForm where
  "emptyIdForm = defaultForm\<lparr>storeCallId := False, callIdField := [], idempotencyKey := []\<rparr>"

section \<open>Summary page: \<open>pickFirst\<close>\<close>

text \<open>
  \<^verbatim>\<open>
  function pickFirst<T>(...values: Array<T | undefined | null>): T | undefined {
    for (const v of values) {
      if (v !== undefined && v !== null && v !== "") return v as T;
    }
    return undefined;
  }
  \<close>
  The loop is a recursion over the argument list; falling off the end is
  \<open>JUndefined\<close>.
\<close>

fun pickFirst :: "jsval list \<Rightarrow> jsval" where
  "pickFirst [] = JUndefined"
| "pickFirst (v # values) =
     (if v \<noteq> JUndefined \<and> v \<noteq> JNull \<and> v \<noteq> JStr [] then v else pickFirst values)"

text \<open>The spec's words: a candidate is defined, non-null and not the empty string.\<close>

definition qualifies :: "jsval \<Rightarrow> bool" where
  "qualifies v \<longleftrightarrow> v \<noteq> JUndefined \<and> v \<noteq> JNull \<and> v \<noteq> JStr []"

section \<open>Properties\<close>

subsection \<open>Strings\<close>

lemma unat_of_char: "unat (of_char c :: codeunit) = of_char c"
proof -
  have "(of_nat (of_char c) :: codeunit) = of_char c"
    by (simp add: of_nat_of_char)
  moreover have "(of_char c :: nat) < 2 ^ LENGTH(16)"
    by (rule less_trans [OF nat_of_char_less_256]) simp
  ultimately show ?thesis
    by (rule of_nat_inverse)
qed

lemma of_char_codeunit_inj: "(of_char c :: codeunit) = of_char d \<longleftrightarrow> c = d"
proof
  assume "(of_char c :: codeunit) = of_char d"
  then have "unat (of_char c :: codeunit) = unat (of_char d :: codeunit)" by simp
  then show "c = d" by (simp add: unat_of_char)
qed simp

lemma lit_eq_iff [simp]: "lit a = lit b \<longleftrightarrow> a = b"
  unfolding lit_def
  by (rule inj_map_eq_map) (simp add: inj_def of_char_codeunit_inj)

lemma lit_Nil [simp]: "lit [] = []"
  by (simp add: lit_def)

lemma lit_eq_Nil_iff [simp]: "lit s = [] \<longleftrightarrow> s = []" "[] = lit s \<longleftrightarrow> s = []"
  by (auto simp add: lit_def)

lemma length_lit [simp]: "length (lit s) = length s"
  by (simp add: lit_def)

lemma lit_append: "lit (a @ b) = lit a @ lit b"
  by (simp add: lit_def)

subsection \<open>Splitting and trimming\<close>











lemma or_empty_simps [simp]: "or_empty None = []" "or_empty (Some s) = s"
  by (simp_all add: or_empty_def)



subsection \<open>The validator\<close>

lemma object_OK_D: "IntakeSchema_object raw = OK f \<Longrightarrow> fields_accept raw f"
  unfolding IntakeSchema_object_def Let_def fields_accept_def accepts_def
  by (clarsimp split: option.splits if_splits simp: bind_eq_Some_conv)

lemma object_OK_I: "fields_accept raw f \<Longrightarrow> IntakeSchema_object raw = OK f"
  unfolding IntakeSchema_object_def Let_def fields_accept_def accepts_def
  by (cases f) simp

lemma object_OK_iff: "IntakeSchema_object raw = OK f \<longleftrightarrow> fields_accept raw f"
  by (blast intro: object_OK_I dest: object_OK_D)

lemma superRefine_Nil_iff: "superRefine val [] = [] \<longleftrightarrow> rules_hold val"
  by (simp add: superRefine_def rules_hold_def addIssue_def Let_def)

lemma safeParse_Inr_iff: "safeParse raw = Inr f \<longleftrightarrow> fields_accept raw f \<and> rules_hold f"
proof (cases "IntakeSchema_object raw")
  case (OK val)
  then have "fields_accept raw f \<longleftrightarrow> val = f"
    using object_OK_iff [of raw f] by auto
  with OK show ?thesis
    by (auto simp: safeParse_def superRefine_Nil_iff [symmetric] split: list.splits)
next
  case (DIRTY val found)
  then have "\<not> fields_accept raw f"
    using object_OK_iff [of raw f] by simp
  with DIRTY show ?thesis by (simp add: safeParse_def)
next
  case (INVALID found)
  then have "\<not> fields_accept raw f"
    using object_OK_iff [of raw f] by simp
  with INVALID show ?thesis by (simp add: safeParse_def)
qed

lemma accepts_z_literal: "accepts (z_literal e p v) s \<longleftrightarrow> v = JStr e \<and> s = e"
  by (auto simp: accepts_def z_literal_def)

lemma accepts_z_enum: "accepts (z_enum opts p v) s \<longleftrightarrow> v = JStr s \<and> s \<in> set opts"
  by (auto simp: accepts_def z_enum_def split: jsval.splits)

lemma accepts_z_boolean: "accepts (z_boolean p v) b \<longleftrightarrow> v = JBool b"
  by (auto simp: accepts_def z_boolean_def split: jsval.splits)

lemma accepts_z_string_trim: "accepts (z_string_trim p v) s \<longleftrightarrow> (\<exists>r. v = JStr r \<and> s = trim r)"
  by (auto simp: accepts_def z_string_trim_def split: jsval.splits)

lemma accepts_z_string_trim_optional:
  "accepts (z_string_trim_optional p v) s \<longleftrightarrow>
     (v = JUndefined \<and> s = None) \<or> (\<exists>r. v = JStr r \<and> s = Some (trim r))"
  by (auto simp: accepts_def z_string_trim_optional_def split: jsval.splits)

lemma accepts_z_string_min: "accepts (z_string_min n msg p v) s \<longleftrightarrow> v = JStr s \<and> n \<le> length s"
  by (auto simp: accepts_def z_string_min_def split: jsval.splits)

lemmas accepts_simps =
  accepts_z_literal accepts_z_enum accepts_z_boolean accepts_z_string_trim
  accepts_z_string_trim_optional accepts_z_string_min

lemma warnings_buildNormalizedIntake:
  "warnings (buildNormalizedIntake input) =
     (if environment input \<noteq> lit ''sandbox'' \<and> environment input \<noteq> lit ''demo''
      then [environment_warning] else [])
     @ (if agentWorkspace input = lit ''unknown'' then [agentWorkspace_warning] else [])
     @ (if dataSensitivity input = lit ''regulated'' then [regulated_warning] else [])"
  by (simp add: buildNormalizedIntake_def Let_def push_warning_def)

lemma falsy_iff: "falsy v \<longleftrightarrow> v = None \<or> v = Some []"
  by (simp add: falsy_def split: option.splits)

lemma not_falsy_iff: "\<not> falsy v \<longleftrightarrow> (\<exists>s. v = Some s \<and> s \<noteq> [])"
  by (cases v) (simp_all add: falsy_def)

lemma build_systems_otherCrmName:
  "systems_otherCrmName (systems (buildNormalizedIntake input)) =
     (if crm input = lit ''other'' then or_null (otherCrmName input) else Null)"
  by (simp add: buildNormalizedIntake_def Let_def push_warning_def)

lemma build_ownership_fixedOwner:
  "ownership_fixedOwner (ownership (buildNormalizedIntake input)) =
     (if ownerStrategy input = lit ''fixed_owner'' then or_null (fixedOwner input) else Null)"
  by (simp add: buildNormalizedIntake_def Let_def push_warning_def)

lemma build_matching_externalIdField:
  "matching_externalIdField (matching (buildNormalizedIntake input)) =
     (if lit ''external_id'' \<in> set (matchingStrategy input)
      then or_null (externalIdField input) else Null)"
  by (simp add: buildNormalizedIntake_def Let_def push_warning_def)

lemma build_ownership_interactionIdField:
  "ownership_interactionIdField (ownership (buildNormalizedIntake input)) =
     (if storeCallId input then Val (callIdField input) else Null)"
  by (simp add: buildNormalizedIntake_def Let_def push_warning_def)

lemma build_reliability_idempotencyKey:
  "reliability_idempotencyKey (reliability (buildNormalizedIntake input)) = idempotencyKey input"
  by (simp add: buildNormalizedIntake_def Let_def push_warning_def)

lemma build_trigger_event:
  "trigger_event (trigger (buildNormalizedIntake input)) =
     template_str (if contactCenter input = lit ''other'' then otherContactCenterName input
                   else Some (contactCenter input))
     @ lit ''.interaction.accepted''"
  by (simp add: buildNormalizedIntake_def Let_def push_warning_def)

lemma build_trigger_interactionType:
  "trigger_interactionType (trigger (buildNormalizedIntake input)) =
     (if voiceOnly input then lit ''voice'' else lit ''generic'')"
  by (simp add: buildNormalizedIntake_def Let_def push_warning_def)

lemma build_contextInjection_customFields:
  "contextInjection_customFields (contextInjection (buildNormalizedIntake input)) =
     customFields_of (customContextFields input)"
  by (simp add: buildNormalizedIntake_def Let_def push_warning_def)

lemmas build_simps =
  build_systems_otherCrmName build_ownership_fixedOwner build_matching_externalIdField
  build_ownership_interactionIdField build_reliability_idempotencyKey build_trigger_event
  build_trigger_interactionType build_contextInjection_customFields

lemma environment_warning_neq:
  "environment_warning \<noteq> agentWorkspace_warning" "environment_warning \<noteq> regulated_warning"
  by (simp_all add: environment_warning_def agentWorkspace_warning_def regulated_warning_def lit_def)

subsection \<open>Evaluating the examples\<close>

lemmas field_defs =
  field_mode_def field_crm_def field_otherCrmName_def field_contactCenter_def
  field_otherContactCenterName_def field_agentWorkspace_def field_environment_def
  field_direction_def field_voiceOnly_def field_crmActivityObjectType_def
  field_subjectTemplate_def field_associations_def field_matchingStrategy_def
  field_phoneNormalization_def field_externalIdField_def field_contextFields_def
  field_customContextFields_def field_contextPlacement_def field_ownerStrategy_def
  field_fixedOwner_def field_storeCallId_def field_callIdField_def field_expectedVolume_def
  field_idempotencyKey_def field_latencyTarget_def field_dataSensitivity_def field_logging_def

lemmas enum_defs =
  CRM_ENUM_def CONTACT_CENTER_ENUM_def AGENT_WORKSPACE_ENUM_def CRM_ACTIVITY_ENUM_def
  OWNER_STRATEGY_ENUM_def PHONE_NORM_ENUM_def CONTEXT_PLACEMENT_ENUM_def VOLUME_ENUM_def
  LATENCY_ENUM_def SENSITIVITY_ENUM_def LOGGING_ENUM_def

lemmas schema_defs =
  z_literal_def z_enum_def z_boolean_def z_string_def z_string_trim_def
  z_string_trim_optional_def z_string_min_def z_array_min_def

lemmas eval_defs =
  safeParse_def IntakeSchema_object_def field_defs enum_defs schema_defs superRefine_def
  addIssue_def mk_issue_def key_def falsy_def Let_def trim_def is_ws_def lit_def

lemma safeParse_defaultValues: "safeParse defaultValues = Inr defaultForm"
  by (simp add: eval_defs defaultValues_def defaultForm_def)

lemma safeParse_otherValues: "safeParse otherValues = Inr otherForm"
  by (simp add: eval_defs defaultValues_def defaultForm_def otherValues_def otherForm_def)


subsection \<open>What the validator reports\<close>

lemma object_value_D: "value_of (IntakeSchema_object raw) = Some f \<Longrightarrow> fields_value raw f"
  unfolding IntakeSchema_object_def Let_def fields_value_def
  by (clarsimp split: option.splits if_splits simp: bind_eq_Some_conv)

lemma issues_of_object:
  "issues_of (IntakeSchema_object raw) =
     issues_of (field_mode raw) @ issues_of (field_crm raw)
     @ issues_of (field_otherCrmName raw) @ issues_of (field_contactCenter raw)
     @ issues_of (field_otherContactCenterName raw) @ issues_of (field_agentWorkspace raw)
     @ issues_of (field_environment raw) @ issues_of (field_direction raw)
     @ issues_of (field_voiceOnly raw) @ issues_of (field_crmActivityObjectType raw)
     @ issues_of (field_subjectTemplate raw) @ issues_of (field_associations raw)
     @ issues_of (field_matchingStrategy raw) @ issues_of (field_phoneNormalization raw)
     @ issues_of (field_externalIdField raw) @ issues_of (field_contextFields raw)
     @ issues_of (field_customContextFields raw) @ issues_of (field_contextPlacement raw)
     @ issues_of (field_ownerStrategy raw) @ issues_of (field_fixedOwner raw)
     @ issues_of (field_storeCallId raw) @ issues_of (field_callIdField raw)
     @ issues_of (field_expectedVolume raw) @ issues_of (field_idempotencyKey raw)
     @ issues_of (field_latencyTarget raw) @ issues_of (field_dataSensitivity raw)
     @ issues_of (field_logging raw)"
  unfolding IntakeSchema_object_def Let_def
  by (simp split: option.splits)

lemma object_clean:
  "value_of (IntakeSchema_object raw) = Some val \<Longrightarrow> issues_of (IntakeSchema_object raw) = []
     \<Longrightarrow> IntakeSchema_object raw = OK val"
  unfolding IntakeSchema_object_def Let_def
  by (simp split: option.splits if_splits)

lemma addIssue_chain:
  "(let ctx1 = (if c1 then addIssue ctx0 i1 else ctx0);
        ctx2 = (if c2 then addIssue ctx1 i2 else ctx1);
        ctx3 = (if c3 then addIssue ctx2 i3 else ctx2);
        ctx4 = (if c4 then addIssue ctx3 i4 else ctx3);
        ctx5 = (if c5 then addIssue ctx4 i5 else ctx4)
    in ctx5)
   = ctx0 @ (if c1 then [i1] else []) @ (if c2 then [i2] else []) @ (if c3 then [i3] else [])
       @ (if c4 then [i4] else []) @ (if c5 then [i5] else [])"
  by (simp add: addIssue_def Let_def)

lemma superRefine_closed:
  "superRefine val ctx =
     ctx
     @ (if crm val = lit ''other'' \<and> falsy (otherCrmName val)
        then [mk_issue custom (key ''otherCrmName'') (Some (lit ''Please specify the CRM name''))]
        else [])
     @ (if contactCenter val = lit ''other'' \<and> falsy (otherContactCenterName val)
        then [mk_issue custom (key ''otherContactCenterName'')
                (Some (lit ''Please specify the contact center name''))]
        else [])
     @ (if lit ''external_id'' \<in> set (matchingStrategy val) \<and> falsy (externalIdField val)
        then [mk_issue custom (key ''externalIdField'')
                (Some (lit ''External ID field is required when using external ID matching''))]
        else [])
     @ (if ownerStrategy val = lit ''fixed_owner'' \<and> falsy (fixedOwner val)
        then [mk_issue custom (key ''fixedOwner'')
                (Some (lit ''Fixed owner is required when using fixed owner strategy''))]
        else [])
     @ (if dataSensitivity val = lit ''regulated'' \<and> logging val \<noteq> lit ''no_payload_logging''
        then [logging_issue]
        else [])"
  unfolding superRefine_def logging_issue_def by (rule addIssue_chain)

lemma superRefine_append: "superRefine val ctx = ctx @ superRefine val []"
  by (simp add: superRefine_closed [of val ctx] superRefine_closed [of val "[]"])

lemma safeParse_Inl_D: "safeParse raw = Inl found \<Longrightarrow> found = reported raw"
proof (cases "IntakeSchema_object raw")
  case (OK val)
  assume "safeParse raw = Inl found"
  with OK show ?thesis
    by (simp add: safeParse_def reported_def split: list.splits)
next
  case (DIRTY val base)
  assume "safeParse raw = Inl found"
  with DIRTY show ?thesis
    using superRefine_append [of val base] by (simp add: safeParse_def reported_def)
next
  case (INVALID base)
  assume "safeParse raw = Inl found"
  with INVALID show ?thesis
    by (simp add: safeParse_def reported_def)
qed

lemma safeParse_Inl_I: "reported raw \<noteq> [] \<Longrightarrow> safeParse raw = Inl (reported raw)"
proof (cases "IntakeSchema_object raw")
  case (OK val)
  assume "reported raw \<noteq> []"
  with OK show ?thesis
    by (simp add: safeParse_def reported_def split: list.splits)
next
  case (DIRTY val base)
  then show ?thesis
    using superRefine_append [of val base] by (simp add: safeParse_def reported_def)
next
  case (INVALID base)
  then show ?thesis
    by (simp add: safeParse_def reported_def)
qed

lemma key_eq_iff [simp]: "key a = key b \<longleftrightarrow> a = b"
  by (simp add: key_def)

lemma keyed_to_Nil [simp]: "\<not> keyed_to k []"
  by (simp add: keyed_to_def)

lemma keyed_to_append [simp]: "keyed_to k (a @ b) \<longleftrightarrow> keyed_to k a \<or> keyed_to k b"
  by (auto simp: keyed_to_def)

lemma keyed_to_single [simp]: "keyed_to k [mk_issue c (key k') m] \<longleftrightarrow> k = k'"
  by (auto simp: keyed_to_def mk_issue_def)

lemma keyed_z_literal:
  "keyed_to k (issues_of (z_literal e (key k') v)) \<longleftrightarrow> k = k' \<and> v \<noteq> JStr e"
  by (auto simp: z_literal_def)

lemma keyed_z_enum:
  "keyed_to k (issues_of (z_enum opts (key k') v)) \<longleftrightarrow>
     k = k' \<and> (\<forall>s. v = JStr s \<longrightarrow> s \<notin> set opts)"
  by (auto simp: z_enum_def split: jsval.splits)

lemma keyed_z_boolean:
  "keyed_to k (issues_of (z_boolean (key k') v)) \<longleftrightarrow> k = k' \<and> (\<forall>b. v \<noteq> JBool b)"
  by (auto simp: z_boolean_def split: jsval.splits)

lemma keyed_z_string_trim:
  "keyed_to k (issues_of (z_string_trim (key k') v)) \<longleftrightarrow> k = k' \<and> (\<forall>s. v \<noteq> JStr s)"
  by (auto simp: z_string_trim_def split: jsval.splits)

lemma keyed_z_string_trim_optional:
  "keyed_to k (issues_of (z_string_trim_optional (key k') v)) \<longleftrightarrow>
     k = k' \<and> v \<noteq> JUndefined \<and> (\<forall>s. v \<noteq> JStr s)"
  by (auto simp: z_string_trim_optional_def split: jsval.splits)

lemma keyed_z_string_min:
  "keyed_to k (issues_of (z_string_min n msg (key k') v)) \<longleftrightarrow>
     k = k' \<and> (\<forall>s. v = JStr s \<longrightarrow> length s < n)"
  by (auto simp: z_string_min_def split: jsval.splits)

lemma z_elements_paths:
  assumes "\<And>q x i. i \<in> set (issues_of (elem q x)) \<Longrightarrow> path i = q"
  shows "i \<in> set (concat (map issues_of (z_elements elem p n xs))) \<Longrightarrow> \<exists>j. path i = p @ [Index j]"
proof (induction xs arbitrary: n)
  case Nil
  then show ?case by simp
next
  case (Cons x xs)
  then show ?case using assms by auto
qed

lemma z_enum_path: "i \<in> set (issues_of (z_enum opts q x)) \<Longrightarrow> path i = q"
  by (auto simp: z_enum_def mk_issue_def split: jsval.splits if_splits)

lemma z_string_path: "i \<in> set (issues_of (z_string q x)) \<Longrightarrow> path i = q"
  by (auto simp: z_string_def mk_issue_def split: jsval.splits)

lemma keyed_z_array_min:
  assumes "\<And>q x i. i \<in> set (issues_of (elem q x)) \<Longrightarrow> path i = q"
    and "keyed_to k (issues_of (z_array_min elem n msg (key k') v))"
  shows "k = k'"
proof (cases v)
  case (JArr xs)
  from assms(2) obtain i where i: "i \<in> set (issues_of (z_array_min elem n msg (key k') v))"
    "path i = key k"
    by (auto simp: keyed_to_def)
  with JArr have "i \<in> set (if length xs < n then [mk_issue too_small (key k') msg] else [])
      \<or> i \<in> set (concat (map issues_of (z_elements elem (key k') 0 xs)))"
    by (auto simp: z_array_min_def Let_def split: option.splits if_splits)
  then show ?thesis
  proof
    assume "i \<in> set (if length xs < n then [mk_issue too_small (key k') msg] else [])"
    with i show ?thesis by (auto simp: mk_issue_def split: if_splits)
  next
    assume "i \<in> set (concat (map issues_of (z_elements elem (key k') 0 xs)))"
    then obtain j where "path i = key k' @ [Index j]"
      using z_elements_paths [where elem = elem and i = i and p = "key k'" and n = 0 and xs = xs]
        assms(1) by blast
    with i show ?thesis by (simp add: key_def)
  qed
qed (use assms(2) in \<open>auto simp: z_array_min_def\<close>)

lemma keyed_z_array_enum:
  "k \<noteq> k' \<Longrightarrow> \<not> keyed_to k (issues_of (z_array_min (z_enum opts) n msg (key k') v))"
  using keyed_z_array_min [of "z_enum opts" k n msg k' v] z_enum_path by blast

lemma keyed_z_array_string:
  "k \<noteq> k' \<Longrightarrow> \<not> keyed_to k (issues_of (z_array_min z_string n msg (key k') v))"
  using keyed_z_array_min [of z_string k n msg k' v] z_string_path by blast

lemmas keyed_simps =
  keyed_z_literal keyed_z_enum keyed_z_boolean keyed_z_string_trim keyed_z_string_trim_optional
  keyed_z_string_min keyed_z_array_enum keyed_z_array_string

lemma keyed_subjectTemplate:
  "keyed_to ''subjectTemplate'' (issues_of (IntakeSchema_object raw)) \<longleftrightarrow>
     (\<forall>s. raw_subjectTemplate raw = JStr s \<longrightarrow> length s < 5)"
  by (simp add: issues_of_object field_defs keyed_simps)

lemma keyed_callIdField:
  "keyed_to ''callIdField'' (issues_of (IntakeSchema_object raw)) \<longleftrightarrow>
     (\<forall>s. raw_callIdField raw \<noteq> JStr s)"
  by (simp add: issues_of_object field_defs keyed_simps)

lemma keyed_superRefine:
  "keyed_to k (superRefine val []) \<Longrightarrow>
     k \<in> {''otherCrmName'', ''otherContactCenterName'', ''externalIdField'', ''fixedOwner'',
          ''logging''}"
  by (auto simp: superRefine_closed logging_issue_def split: if_splits)

lemma reported_keyed_subjectTemplate:
  "keyed_to ''subjectTemplate'' (reported raw) \<longleftrightarrow>
     (\<forall>s. raw_subjectTemplate raw = JStr s \<longrightarrow> length s < 5)"
proof -
  have "\<not> keyed_to ''subjectTemplate'' (superRefine val [])" for val
    using keyed_superRefine [of "''subjectTemplate''" val] by auto
  then show ?thesis
    by (simp add: reported_def keyed_subjectTemplate split: option.splits)
qed

lemma fields_accept_drop_fixedOwner:
  "fields_accept raw f \<Longrightarrow>
     fields_accept (raw\<lparr>raw_fixedOwner := JUndefined\<rparr>) (f\<lparr>fixedOwner := None\<rparr>)"
  by (simp add: fields_accept_def field_defs accepts_z_string_trim_optional)

lemma fields_accept_drop_externalIdField:
  "fields_accept raw f \<Longrightarrow>
     fields_accept (raw\<lparr>raw_externalIdField := JUndefined\<rparr>) (f\<lparr>externalIdField := None\<rparr>)"
  by (simp add: fields_accept_def field_defs accepts_z_string_trim_optional)

lemma value_z_enum: "value_of (z_enum opts p v) = Some s \<longleftrightarrow> v = JStr s \<and> s \<in> set opts"
  by (auto simp: z_enum_def split: jsval.splits)

lemma no_custom_Nil [simp]: "no_custom []"
  by (simp add: no_custom_def)

lemma no_custom_append [simp]: "no_custom (a @ b) \<longleftrightarrow> no_custom a \<and> no_custom b"
  by (auto simp: no_custom_def)

lemma no_custom_z_literal [simp]: "no_custom (issues_of (z_literal e p v))"
  by (simp add: no_custom_def z_literal_def mk_issue_def)

lemma no_custom_z_enum [simp]: "no_custom (issues_of (z_enum opts p v))"
  by (simp add: no_custom_def z_enum_def mk_issue_def split: jsval.splits)

lemma no_custom_z_boolean [simp]: "no_custom (issues_of (z_boolean p v))"
  by (simp add: no_custom_def z_boolean_def mk_issue_def split: jsval.splits)

lemma no_custom_z_string [simp]: "no_custom (issues_of (z_string p v))"
  by (simp add: no_custom_def z_string_def mk_issue_def split: jsval.splits)

lemma no_custom_z_string_trim [simp]: "no_custom (issues_of (z_string_trim p v))"
  by (simp add: no_custom_def z_string_trim_def mk_issue_def split: jsval.splits)

lemma no_custom_z_string_trim_optional [simp]:
  "no_custom (issues_of (z_string_trim_optional p v))"
  by (simp add: no_custom_def z_string_trim_optional_def mk_issue_def split: jsval.splits)

lemma no_custom_z_string_min [simp]: "no_custom (issues_of (z_string_min n msg p v))"
  by (simp add: no_custom_def z_string_min_def mk_issue_def split: jsval.splits)

lemma no_custom_z_elements:
  "(\<And>q x. no_custom (issues_of (elem q x))) \<Longrightarrow>
     no_custom (concat (map issues_of (z_elements elem p n xs)))"
  by (induction xs arbitrary: n) simp_all

lemma no_custom_single [simp]: "no_custom [mk_issue c p m] \<longleftrightarrow> c \<noteq> custom"
  by (simp add: no_custom_def mk_issue_def)

lemma issues_z_array_min:
  "issues_of (z_array_min elem n msg p (JArr xs)) =
     (if length xs < n then [mk_issue too_small p msg] else [])
     @ concat (map issues_of (z_elements elem p 0 xs))"
  by (simp add: z_array_min_def Let_def split: option.splits)

lemma no_custom_z_array_min:
  assumes "\<And>q x. no_custom (issues_of (elem q x))"
  shows "no_custom (issues_of (z_array_min elem n msg p v))"
proof (cases v)
  case (JArr xs)
  then show ?thesis
    using no_custom_z_elements [of elem p 0 xs] assms by (simp add: issues_z_array_min)
qed (simp_all add: z_array_min_def)

lemma no_custom_object: "no_custom (issues_of (IntakeSchema_object raw))"
  by (simp add: issues_of_object field_defs no_custom_z_array_min)

lemma logging_issue_not_base: "logging_issue \<notin> set (issues_of (IntakeSchema_object raw))"
  using no_custom_object [of raw] by (auto simp: no_custom_def logging_issue_def mk_issue_def)

lemma path_logging_issue: "path logging_issue = key ''logging''"
  by (simp add: logging_issue_def mk_issue_def)

lemma keyed_logging_issue: "logging_issue \<in> set found \<Longrightarrow> keyed_to ''logging'' found"
  unfolding keyed_to_def using path_logging_issue by blast

lemma superRefine_regulated:
  assumes "dataSensitivity val = lit ''regulated''" and "logging val \<noteq> lit ''no_payload_logging''"
  shows "superRefine val [] \<noteq> []"
    and "logging_issue \<in> set (superRefine val [])"
    and "superRefine val [] = [logging_issue]
           \<longleftrightarrow> rules_hold (val\<lparr>logging := lit ''no_payload_logging''\<rparr>)"
  using assms by (simp_all add: superRefine_closed rules_hold_def)

lemma fields_accept_set_logging:
  "fields_accept raw f \<Longrightarrow> v \<in> set LOGGING_ENUM \<Longrightarrow>
     fields_accept (raw\<lparr>raw_logging := JStr v\<rparr>) (f\<lparr>logging := v\<rparr>)"
  by (simp add: fields_accept_def field_defs accepts_z_enum)

lemma fields_accept_dataSensitivity:
  "fields_accept raw f \<Longrightarrow> raw_dataSensitivity raw = JStr (dataSensitivity f)"
  by (simp add: fields_accept_def field_dataSensitivity_def accepts_z_enum)

lemma fields_accept_logging:
  "fields_accept raw f \<Longrightarrow> raw_logging raw = JStr (logging f)"
  by (simp add: fields_accept_def field_logging_def accepts_z_enum)

lemma fields_value_sensitivity_logging:
  "fields_value raw f \<Longrightarrow>
     raw_dataSensitivity raw = JStr (dataSensitivity f) \<and> raw_logging raw = JStr (logging f)"
  by (simp add: fields_value_def field_dataSensitivity_def field_logging_def value_z_enum)

lemma safeParse_regulatedValues:
  "safeParse (regulatedValues\<lparr>raw_logging := JStr (lit ''no_payload_logging'')\<rparr>)
     = Inr regulatedForm"
  by (simp add: eval_defs regulatedValues_def regulatedForm_def defaultValues_def defaultForm_def)

lemma trim_Nil [simp]: "trim [] = []"
  by (simp add: trim_def)

lemma fields_accept_empty_callIdField:
  "fields_accept raw f \<Longrightarrow>
     fields_accept (raw\<lparr>raw_callIdField := JStr []\<rparr>) (f\<lparr>callIdField := []\<rparr>)"
  by (simp add: fields_accept_def field_defs accepts_z_string_trim)

lemma fields_accept_empty_idempotencyKey:
  "fields_accept raw f \<Longrightarrow>
     fields_accept (raw\<lparr>raw_idempotencyKey := JStr []\<rparr>) (f\<lparr>idempotencyKey := []\<rparr>)"
  by (simp add: fields_accept_def field_defs accepts_z_string_trim)

subsection \<open>\<open>pickFirst\<close>\<close>

lemma pickFirst_none: "\<forall>v \<in> set values. \<not> qualifies v \<Longrightarrow> pickFirst values = JUndefined"
  by (induction "values") (simp_all add: qualifies_def)

lemma pickFirst_skip:
  "\<forall>v \<in> set skipped. \<not> qualifies v \<Longrightarrow> pickFirst (skipped @ rest) = pickFirst rest"
  by (induction skipped) (auto simp add: qualifies_def)

lemma pickFirst_hit: "qualifies v \<Longrightarrow> pickFirst (v # rest) = v"
  by (auto simp add: qualifies_def)

section \<open>The normalizer on validated input\<close>

text \<open>
  C1. For every validated input the normalizer nulls the conditional fields
  whose enabling condition is false: \<open>systems.otherCrmName\<close> unless the CRM is
  "other"; \<open>ownership.fixedOwner\<close> unless the owner strategy is "fixed_owner",
  so in particular for "unassigned", whatever the form held for the fixed
  owner; \<open>matching.externalIdField\<close> unless "external_id" is among the matching
  strategies, and when it is, the field is the value supplied in the validated
  input (what was typed in the form, trimmed by the schema);
  \<open>ownership.interactionIdField\<close> unless \<open>storeCallId\<close> is true.
\<close>

theorem normalizer_nulls_disabled_fields:
  assumes "safeParse raw = Inr input"
  shows "(crm input \<noteq> lit ''other'' \<longrightarrow>
            systems_otherCrmName (systems (buildNormalizedIntake input)) = Null)
       \<and> (ownerStrategy input \<noteq> lit ''fixed_owner'' \<longrightarrow>
            ownership_fixedOwner (ownership (buildNormalizedIntake input)) = Null)
       \<and> (ownerStrategy input = lit ''unassigned'' \<longrightarrow>
            ownership_fixedOwner (ownership (buildNormalizedIntake input)) = Null)
       \<and> (lit ''external_id'' \<notin> set (matchingStrategy input) \<longrightarrow>
            matching_externalIdField (matching (buildNormalizedIntake input)) = Null)
       \<and> (lit ''external_id'' \<in> set (matchingStrategy input) \<longrightarrow>
            (\<exists>supplied. externalIdField input = Some supplied \<and> supplied \<noteq> []
               \<and> matching_externalIdField (matching (buildNormalizedIntake input)) = Val supplied
               \<and> (\<exists>typed. raw_externalIdField raw = JStr typed \<and> supplied = trim typed)))
       \<and> (\<not> storeCallId input \<longrightarrow>
            ownership_interactionIdField (ownership (buildNormalizedIntake input)) = Null)"
proof -
  from assms have f: "fields_accept raw input" and r: "rules_hold input"
    by (simp_all add: safeParse_Inr_iff)
  from f have "accepts (field_externalIdField raw) (externalIdField input)"
    by (simp add: fields_accept_def)
  then have typed: "externalIdField input = Some supplied \<longrightarrow>
      (\<exists>typed. raw_externalIdField raw = JStr typed \<and> supplied = trim typed)" for supplied
    by (auto simp: field_externalIdField_def accepts_z_string_trim_optional)
  from r have "lit ''external_id'' \<in> set (matchingStrategy input) \<longrightarrow>
      (\<exists>supplied. externalIdField input = Some supplied \<and> supplied \<noteq> [])"
    by (simp add: rules_hold_def not_falsy_iff)
  with typed have ext: "lit ''external_id'' \<in> set (matchingStrategy input) \<longrightarrow>
      (\<exists>supplied. externalIdField input = Some supplied \<and> supplied \<noteq> []
         \<and> (\<exists>typed. raw_externalIdField raw = JStr typed \<and> supplied = trim typed))"
    by blast
  show ?thesis
    using ext by (auto simp: build_simps or_null_def)
qed

theorem normalizer_nulls_disabled_fields_witness:
  "safeParse otherValues = Inr otherForm
   \<and> raw_fixedOwner otherValues = JStr (lit ''queue-7'')
   \<and> raw_externalIdField otherValues = JStr (lit ''crm_customer_id '')
   \<and> systems_otherCrmName (systems (buildNormalizedIntake otherForm)) = Null
   \<and> ownership_fixedOwner (ownership (buildNormalizedIntake otherForm)) = Null
   \<and> matching_externalIdField (matching (buildNormalizedIntake otherForm))
        = Val (lit ''crm_customer_id'')
   \<and> ownership_interactionIdField (ownership (buildNormalizedIntake otherForm)) = Null"
proof -
  have form: "crm otherForm \<noteq> lit ''other''" "ownerStrategy otherForm = lit ''unassigned''"
    "lit ''external_id'' \<in> set (matchingStrategy otherForm)"
    "externalIdField otherForm = Some (lit ''crm_customer_id'')" "\<not> storeCallId otherForm"
    by (simp_all add: otherForm_def defaultForm_def)
  have "values": "raw_fixedOwner otherValues = JStr (lit ''queue-7'')"
    "raw_externalIdField otherValues = JStr (lit ''crm_customer_id '')"
    by (simp_all add: otherValues_def)
  from normalizer_nulls_disabled_fields [OF safeParse_otherValues] form
  have "systems_otherCrmName (systems (buildNormalizedIntake otherForm)) = Null"
    "ownership_fixedOwner (ownership (buildNormalizedIntake otherForm)) = Null"
    "matching_externalIdField (matching (buildNormalizedIntake otherForm))
        = Val (lit ''crm_customer_id'')"
    "ownership_interactionIdField (ownership (buildNormalizedIntake otherForm)) = Null"
    by auto
  with "values" safeParse_otherValues show ?thesis
    by simp
qed

text \<open>
  C2. For every validated input, \<open>trigger.event\<close> is the contact-center name
  followed by \<open>.interaction.accepted\<close>, where the name is the enum value unless
  that is "other", in which case it is the free-text
  \<open>otherContactCenterName\<close>; \<open>trigger.interactionType\<close> is "voice" when
  \<open>voiceOnly\<close> is true and "generic" otherwise.
\<close>

theorem trigger_derivation:
  assumes "safeParse raw = Inr input"
  shows "contactCenter input \<in> set CONTACT_CENTER_ENUM
       \<and> (contactCenter input \<noteq> lit ''other'' \<longrightarrow>
            trigger_event (trigger (buildNormalizedIntake input))
              = contactCenter input @ lit ''.interaction.accepted'')
       \<and> (contactCenter input = lit ''other'' \<longrightarrow>
            (\<exists>name. otherContactCenterName input = Some name \<and> name \<noteq> []
               \<and> trigger_event (trigger (buildNormalizedIntake input))
                    = name @ lit ''.interaction.accepted''))
       \<and> trigger_interactionType (trigger (buildNormalizedIntake input))
            = (if voiceOnly input then lit ''voice'' else lit ''generic'')"
proof -
  from assms have f: "fields_accept raw input" and r: "rules_hold input"
    by (simp_all add: safeParse_Inr_iff)
  from f have cc: "contactCenter input \<in> set CONTACT_CENTER_ENUM"
    by (simp add: fields_accept_def field_contactCenter_def accepts_z_enum)
  from r have other: "contactCenter input = lit ''other'' \<longrightarrow>
      (\<exists>name. otherContactCenterName input = Some name \<and> name \<noteq> [])"
    by (simp add: rules_hold_def not_falsy_iff)
  show ?thesis
    using cc other
    by (auto simp: build_simps template_str_def)
qed

theorem trigger_derivation_witness:
  "safeParse defaultValues = Inr defaultForm
   \<and> trigger_event (trigger (buildNormalizedIntake defaultForm))
        = lit ''ringcentral.interaction.accepted''
   \<and> trigger_interactionType (trigger (buildNormalizedIntake defaultForm)) = lit ''voice''
   \<and> safeParse otherValues = Inr otherForm
   \<and> trigger_event (trigger (buildNormalizedIntake otherForm))
        = lit ''Talkdesk.interaction.accepted''
   \<and> trigger_interactionType (trigger (buildNormalizedIntake otherForm)) = lit ''generic''"
  using trigger_derivation [OF safeParse_defaultValues] safeParse_defaultValues
    trigger_derivation [OF safeParse_otherValues] safeParse_otherValues
  by (simp add: otherForm_def defaultForm_def lit_append [symmetric])

text \<open>
  C6. The three advisory warnings are evaluated one after the other, each on its
  own condition, and appended in the order environment, agent workspace
  unknown, regulated. For every input the validator accepts the environment is
  "sandbox" or "demo", so the environment warning is never in the list and the
  list has at most two entries.
\<close>

theorem warnings_order_and_bound:
  "warnings (buildNormalizedIntake input) =
     (if environment input \<noteq> lit ''sandbox'' \<and> environment input \<noteq> lit ''demo''
      then [environment_warning] else [])
     @ (if agentWorkspace input = lit ''unknown'' then [agentWorkspace_warning] else [])
     @ (if dataSensitivity input = lit ''regulated'' then [regulated_warning] else [])
   \<and> (safeParse raw = Inr input \<longrightarrow>
        environment input \<in> {lit ''sandbox'', lit ''demo''}
        \<and> environment_warning \<notin> set (warnings (buildNormalizedIntake input))
        \<and> length (warnings (buildNormalizedIntake input)) \<le> 2)"
proof -
  have "environment input \<in> {lit ''sandbox'', lit ''demo''}" if "safeParse raw = Inr input"
  proof -
    from that have "fields_accept raw input"
      by (simp add: safeParse_Inr_iff)
    then show ?thesis
      by (simp add: fields_accept_def field_environment_def accepts_z_enum)
  qed
  then show ?thesis
    by (auto simp: warnings_buildNormalizedIntake environment_warning_neq)
qed

theorem warnings_order_and_bound_witness:
  "safeParse otherValues = Inr otherForm
   \<and> warnings (buildNormalizedIntake otherForm) = [agentWorkspace_warning, regulated_warning]
   \<and> warnings (buildNormalizedIntake defaultForm) = []
   \<and> warnings (buildNormalizedIntake
        (otherForm\<lparr>environment := lit ''production''\<rparr>))
        = [environment_warning, agentWorkspace_warning, regulated_warning]"
  using warnings_order_and_bound [of otherForm otherValues] safeParse_otherValues
    warnings_order_and_bound [of defaultForm defaultValues]
    warnings_order_and_bound [of "otherForm\<lparr>environment := lit ''production''\<rparr>" otherValues]
  by (simp add: otherForm_def defaultForm_def)

section \<open>Custom context fields\<close>




section \<open>The validator's rules\<close>

text \<open>
  C5, as stated, at the input with data sensitivity "regulated", logging
  "mask_pii" and the CRM "zoho": validation fails, but the only issue is the
  one keyed to \<open>crm\<close>; since the object is aborted the refinement is not run
  and no issue is keyed to \<open>logging\<close>. The same input with logging
  "no_payload_logging" does not pass either.
\<close>

theorem regulated_logging_aborted_counterexample:
  "raw_dataSensitivity zohoValues = JStr (lit ''regulated'')
   \<and> raw_logging zohoValues = JStr (lit ''mask_pii'')
   \<and> safeParse zohoValues = Inl [mk_issue invalid_enum_value (key ''crm'') None]
   \<and> \<not> keyed_to ''logging'' [mk_issue invalid_enum_value (key ''crm'') None]
   \<and> safeParse (zohoValues\<lparr>raw_logging := JStr (lit ''no_payload_logging'')\<rparr>)
        = Inl [mk_issue invalid_enum_value (key ''crm'') None]"
proof (intro conjI)
  show "raw_dataSensitivity zohoValues = JStr (lit ''regulated'')"
    by (simp add: zohoValues_def)
  show "raw_logging zohoValues = JStr (lit ''mask_pii'')"
    by (simp add: zohoValues_def defaultValues_def)
  show "safeParse zohoValues = Inl [mk_issue invalid_enum_value (key ''crm'') None]"
    by (simp add: eval_defs zohoValues_def defaultValues_def)
  show "\<not> keyed_to ''logging'' [mk_issue invalid_enum_value (key ''crm'') None]"
    by simp
  show "safeParse (zohoValues\<lparr>raw_logging := JStr (lit ''no_payload_logging'')\<rparr>)
        = Inl [mk_issue invalid_enum_value (key ''crm'') None]"
    by (simp add: eval_defs zohoValues_def defaultValues_def)
qed

text \<open>
  C5, amended. For every input with data sensitivity "regulated" and logging
  "mask_pii", validation fails and the normalizer is not run; when no field
  aborts the object (every field passes its own type, literal and enum check),
  the issues hold the custom issue keyed to \<open>logging\<close>, a blocking error. The
  same input with logging "no_payload_logging" passes exactly when that issue
  is the only one reported, and then the warnings of the normalized output hold
  the regulated-data security-review message.
\<close>

theorem regulated_logging_rule:
  assumes reg: "raw_dataSensitivity raw = JStr (lit ''regulated'')"
    and mask: "raw_logging raw = JStr (lit ''mask_pii'')"
  shows "(\<exists>found. safeParse raw = Inl found) \<and> normalize_values raw = None
       \<and> (value_of (IntakeSchema_object raw) \<noteq> None \<longrightarrow>
            (\<exists>found. safeParse raw = Inl found \<and> logging_issue \<in> set found
               \<and> keyed_to ''logging'' found))
       \<and> ((\<exists>f. safeParse (raw\<lparr>raw_logging := JStr (lit ''no_payload_logging'')\<rparr>) = Inr f)
            \<longleftrightarrow> safeParse raw = Inl [logging_issue])
       \<and> (\<forall>f. safeParse (raw\<lparr>raw_logging := JStr (lit ''no_payload_logging'')\<rparr>) = Inr f \<longrightarrow>
            regulated_warning \<in> set (warnings (buildNormalizedIntake f)))"
proof -
  let ?raw' = "raw\<lparr>raw_logging := JStr (lit ''no_payload_logging'')\<rparr>"
  have parsed: "dataSensitivity val = lit ''regulated'' \<and> logging val = lit ''mask_pii''"
    if "value_of (IntakeSchema_object raw) = Some val" for val
    using object_value_D [OF that] reg mask by (auto dest: fields_value_sensitivity_logging)
  have fails: "\<exists>found. safeParse raw = Inl found"
  proof (cases "safeParse raw")
    case (Inr f)
    then have "fields_accept raw f" and "rules_hold f"
      by (simp_all add: safeParse_Inr_iff)
    with reg mask show ?thesis
      by (auto simp: rules_hold_def dest: fields_accept_dataSensitivity fields_accept_logging)
  qed simp
  then have none: "normalize_values raw = None"
    by (auto simp: normalize_values_def)
  have keyed: "\<exists>found. safeParse raw = Inl found \<and> logging_issue \<in> set found
      \<and> keyed_to ''logging'' found"
    if "value_of (IntakeSchema_object raw) \<noteq> None"
  proof -
    from that obtain val where val: "value_of (IntakeSchema_object raw) = Some val" by auto
    with parsed have "logging_issue \<in> set (superRefine val [])"
      by (simp add: superRefine_regulated)
    with val have mem: "logging_issue \<in> set (reported raw)"
      by (simp add: reported_def)
    then have "reported raw \<noteq> []" by auto
    then have "safeParse raw = Inl (reported raw)" by (rule safeParse_Inl_I)
    with mem show ?thesis by (auto intro: keyed_logging_issue)
  qed
  have only_if: "safeParse raw = Inl [logging_issue]" if "safeParse ?raw' = Inr f" for f
  proof -
    from that have f: "fields_accept ?raw' f" "rules_hold f"
      by (simp_all add: safeParse_Inr_iff)
    let ?g = "f\<lparr>logging := lit ''mask_pii''\<rparr>"
    have "fields_accept (?raw'\<lparr>raw_logging := JStr (lit ''mask_pii'')\<rparr>) ?g"
      using f(1) by (rule fields_accept_set_logging) (simp add: LOGGING_ENUM_def)
    moreover have "?raw'\<lparr>raw_logging := JStr (lit ''mask_pii'')\<rparr> = raw"
      using mask by simp
    ultimately have g: "fields_accept raw ?g" by simp
    then have obj: "IntakeSchema_object raw = OK ?g" by (rule object_OK_I)
    from f(1) have "logging f = lit ''no_payload_logging''"
      by (auto dest: fields_accept_logging)
    then have "?g\<lparr>logging := lit ''no_payload_logging''\<rparr> = f" by simp
    moreover from g reg have "dataSensitivity ?g = lit ''regulated''"
      by (auto dest: fields_accept_dataSensitivity)
    ultimately have "superRefine ?g [] = [logging_issue]"
      using f(2) superRefine_regulated(3) [of ?g] by simp
    with obj have "reported raw = [logging_issue]"
      by (simp add: reported_def)
    then show ?thesis
      using safeParse_Inl_I [of raw] by simp
  qed
  have "if": "\<exists>f. safeParse ?raw' = Inr f" if "safeParse raw = Inl [logging_issue]"
  proof -
    from that have rep: "reported raw = [logging_issue]"
      by (auto dest: safeParse_Inl_D)
    show ?thesis
    proof (cases "value_of (IntakeSchema_object raw)")
      case None
      with rep have "logging_issue \<in> set (issues_of (IntakeSchema_object raw))"
        by (simp add: reported_def)
      then show ?thesis by (simp add: logging_issue_not_base)
    next
      case (Some val)
      with parsed have val: "dataSensitivity val = lit ''regulated''"
        "logging val \<noteq> lit ''no_payload_logging''"
        by simp_all
      then have "superRefine val [] \<noteq> []"
        by (rule superRefine_regulated)
      moreover from rep Some
      have "issues_of (IntakeSchema_object raw) @ superRefine val [] = [logging_issue]"
        by (simp add: reported_def)
      ultimately have clean: "issues_of (IntakeSchema_object raw) = []"
        and refine: "superRefine val [] = [logging_issue]"
        by (auto simp: append_eq_Cons_conv)
      from Some clean have "IntakeSchema_object raw = OK val" by (rule object_clean)
      then have "fields_accept raw val" by (rule object_OK_D)
      then have "fields_accept ?raw' (val\<lparr>logging := lit ''no_payload_logging''\<rparr>)"
        by (rule fields_accept_set_logging) (simp add: LOGGING_ENUM_def)
      moreover from refine val have "rules_hold (val\<lparr>logging := lit ''no_payload_logging''\<rparr>)"
        by (simp add: superRefine_regulated)
      ultimately show ?thesis
        by (auto simp: safeParse_Inr_iff)
    qed
  qed
  have warned: "regulated_warning \<in> set (warnings (buildNormalizedIntake f))"
    if "safeParse ?raw' = Inr f" for f
  proof -
    from that have "fields_accept ?raw' f"
      by (simp add: safeParse_Inr_iff)
    with reg have "dataSensitivity f = lit ''regulated''"
      by (auto dest: fields_accept_dataSensitivity)
    then show ?thesis
      by (simp add: warnings_buildNormalizedIntake)
  qed
  from fails none keyed only_if "if" warned show ?thesis
    by blast
qed

theorem regulated_logging_rule_witness:
  "raw_dataSensitivity regulatedValues = JStr (lit ''regulated'')
   \<and> raw_logging regulatedValues = JStr (lit ''mask_pii'')
   \<and> safeParse regulatedValues = Inl [logging_issue]
   \<and> keyed_to ''logging'' [logging_issue]
   \<and> normalize_values regulatedValues = None
   \<and> safeParse (regulatedValues\<lparr>raw_logging := JStr (lit ''no_payload_logging'')\<rparr>)
        = Inr regulatedForm
   \<and> regulated_warning \<in> set (warnings (buildNormalizedIntake regulatedForm))"
proof -
  have reg: "raw_dataSensitivity regulatedValues = JStr (lit ''regulated'')"
    by (simp add: regulatedValues_def)
  have mask: "raw_logging regulatedValues = JStr (lit ''mask_pii'')"
    by (simp add: regulatedValues_def defaultValues_def)
  note rule = regulated_logging_rule [OF reg mask]
  from rule safeParse_regulatedValues have only: "safeParse regulatedValues = Inl [logging_issue]"
    by blast
  from rule have "normalize_values regulatedValues = None"
    by blast
  moreover from rule safeParse_regulatedValues
  have "regulated_warning \<in> set (warnings (buildNormalizedIntake regulatedForm))"
    by blast
  moreover have "keyed_to ''logging'' [logging_issue]"
    by (rule keyed_logging_issue) simp
  ultimately show ?thesis
    using reg mask only safeParse_regulatedValues by simp
qed

text \<open>
  C7. For every input whose subject template is a string of fewer than 5 code
  units, the validator returns the issues as a value, among them the
  \<open>too_small\<close> issue keyed to \<open>subjectTemplate\<close>. A subject template of at
  least 5 code units satisfies the rule: the field parses to itself and no
  reported issue is keyed to \<open>subjectTemplate\<close>.
\<close>

theorem subjectTemplate_min_length:
  "(raw_subjectTemplate raw = JStr s \<and> length s < 5 \<longrightarrow>
      (\<exists>found. safeParse raw = Inl found \<and> keyed_to ''subjectTemplate'' found
         \<and> mk_issue too_small (key ''subjectTemplate'')
              (Some (lit ''Subject template is required'')) \<in> set found))
   \<and> (raw_subjectTemplate raw = JStr s \<and> 5 \<le> length s \<longrightarrow>
        field_subjectTemplate raw = OK s
        \<and> (\<forall>found. safeParse raw = Inl found \<longrightarrow> \<not> keyed_to ''subjectTemplate'' found)
        \<and> (\<forall>f. safeParse raw = Inr f \<longrightarrow> subjectTemplate f = s))"
proof (intro conjI impI)
  assume short: "raw_subjectTemplate raw = JStr s \<and> length s < 5"
  let ?i = "mk_issue too_small (key ''subjectTemplate'') (Some (lit ''Subject template is required''))"
  from short have "issues_of (field_subjectTemplate raw) = [?i]"
    by (simp add: field_subjectTemplate_def z_string_min_def)
  then have "?i \<in> set (issues_of (IntakeSchema_object raw))"
    by (simp add: issues_of_object)
  then have mem: "?i \<in> set (reported raw)"
    by (simp add: reported_def)
  then have "reported raw \<noteq> []" by auto
  then have "safeParse raw = Inl (reported raw)" by (rule safeParse_Inl_I)
  moreover from short have "keyed_to ''subjectTemplate'' (reported raw)"
    by (simp add: reported_keyed_subjectTemplate)
  ultimately show "\<exists>found. safeParse raw = Inl found \<and> keyed_to ''subjectTemplate'' found
      \<and> ?i \<in> set found"
    using mem by blast
next
  assume long: "raw_subjectTemplate raw = JStr s \<and> 5 \<le> length s"
  then show "field_subjectTemplate raw = OK s"
    by (simp add: field_subjectTemplate_def z_string_min_def)
  from long have "\<not> keyed_to ''subjectTemplate'' (reported raw)"
    by (simp add: reported_keyed_subjectTemplate)
  then show "\<forall>found. safeParse raw = Inl found \<longrightarrow> \<not> keyed_to ''subjectTemplate'' found"
    by (auto dest: safeParse_Inl_D)
  show "\<forall>f. safeParse raw = Inr f \<longrightarrow> subjectTemplate f = s"
  proof (intro allI impI)
    fix f assume "safeParse raw = Inr f"
    then have "accepts (field_subjectTemplate raw) (subjectTemplate f)"
      by (simp add: safeParse_Inr_iff fields_accept_def)
    with long show "subjectTemplate f = s"
      by (simp add: field_subjectTemplate_def accepts_z_string_min)
  qed
qed

theorem subjectTemplate_min_length_witness:
  "safeParse shortSubjectValues
     = Inl [mk_issue too_small (key ''subjectTemplate'') (Some (lit ''Subject template is required''))]
   \<and> keyed_to ''subjectTemplate''
        [mk_issue too_small (key ''subjectTemplate'') (Some (lit ''Subject template is required''))]
   \<and> field_subjectTemplate (defaultValues\<lparr>raw_subjectTemplate := JStr (lit ''Calls'')\<rparr>)
        = OK (lit ''Calls'')
   \<and> subjectTemplate defaultForm = lit ''Interaction from {{ani}} to {{dnis}}''"
proof (intro conjI)
  have "raw_subjectTemplate shortSubjectValues = JStr (lit ''Call'') \<and> length (lit ''Call'') < 5"
    by (simp add: shortSubjectValues_def)
  with subjectTemplate_min_length [of shortSubjectValues "lit ''Call''"]
  obtain found where found: "safeParse shortSubjectValues = Inl found"
    "keyed_to ''subjectTemplate'' found"
    by blast
  have eval: "safeParse shortSubjectValues
     = Inl [mk_issue too_small (key ''subjectTemplate'') (Some (lit ''Subject template is required''))]"
    by (simp add: eval_defs shortSubjectValues_def defaultValues_def)
  then show "safeParse shortSubjectValues
     = Inl [mk_issue too_small (key ''subjectTemplate'') (Some (lit ''Subject template is required''))]" .
  from found eval show "keyed_to ''subjectTemplate''
        [mk_issue too_small (key ''subjectTemplate'') (Some (lit ''Subject template is required''))]"
    by simp
  show "field_subjectTemplate (defaultValues\<lparr>raw_subjectTemplate := JStr (lit ''Calls'')\<rparr>)
        = OK (lit ''Calls'')"
    using subjectTemplate_min_length
      [of "defaultValues\<lparr>raw_subjectTemplate := JStr (lit ''Calls'')\<rparr>" "lit ''Calls''"]
    by simp
  have "raw_subjectTemplate defaultValues = JStr (lit ''Interaction from {{ani}} to {{dnis}}'')"
    by (simp add: defaultValues_def)
  then show "subjectTemplate defaultForm = lit ''Interaction from {{ani}} to {{dnis}}''"
    using subjectTemplate_min_length
      [of defaultValues "lit ''Interaction from {{ani}} to {{dnis}}''"] safeParse_defaultValues
    by simp
qed

text \<open>
  C8. The validator requires \<open>callIdField\<close> to be a string whatever the
  \<open>storeCallId\<close> toggle holds: an input without it is rejected with an issue
  keyed to \<open>callIdField\<close>. By contrast an accepted input stays accepted
  without \<open>fixedOwner\<close> when the owner strategy is not "fixed_owner", and
  without \<open>externalIdField\<close> when "external_id" is not a matching strategy.
\<close>

theorem callIdField_always_required:
  "((\<forall>s. raw_callIdField raw \<noteq> JStr s) \<longrightarrow>
      (\<exists>found. safeParse (raw\<lparr>raw_storeCallId := toggle\<rparr>) = Inl found
         \<and> keyed_to ''callIdField'' found))
   \<and> (safeParse raw = Inr f \<and> ownerStrategy f \<noteq> lit ''fixed_owner'' \<longrightarrow>
        safeParse (raw\<lparr>raw_fixedOwner := JUndefined\<rparr>) = Inr (f\<lparr>fixedOwner := None\<rparr>))
   \<and> (safeParse raw = Inr f \<and> lit ''external_id'' \<notin> set (matchingStrategy f) \<longrightarrow>
        safeParse (raw\<lparr>raw_externalIdField := JUndefined\<rparr>) = Inr (f\<lparr>externalIdField := None\<rparr>))"
proof (intro conjI impI)
  assume missing: "\<forall>s. raw_callIdField raw \<noteq> JStr s"
  let ?raw = "raw\<lparr>raw_storeCallId := toggle\<rparr>"
  from missing have "keyed_to ''callIdField'' (issues_of (IntakeSchema_object ?raw))"
    by (simp add: keyed_callIdField)
  then have keyed: "keyed_to ''callIdField'' (reported ?raw)"
    by (simp add: reported_def)
  then have "reported ?raw \<noteq> []" by auto
  then have "safeParse ?raw = Inl (reported ?raw)" by (rule safeParse_Inl_I)
  with keyed show "\<exists>found. safeParse ?raw = Inl found \<and> keyed_to ''callIdField'' found"
    by blast
next
  assume "safeParse raw = Inr f \<and> ownerStrategy f \<noteq> lit ''fixed_owner''"
  then have "fields_accept raw f" "rules_hold f" "ownerStrategy f \<noteq> lit ''fixed_owner''"
    by (simp_all add: safeParse_Inr_iff)
  then show "safeParse (raw\<lparr>raw_fixedOwner := JUndefined\<rparr>) = Inr (f\<lparr>fixedOwner := None\<rparr>)"
    by (simp add: safeParse_Inr_iff fields_accept_drop_fixedOwner rules_hold_def)
next
  assume "safeParse raw = Inr f \<and> lit ''external_id'' \<notin> set (matchingStrategy f)"
  then have "fields_accept raw f" "rules_hold f" "lit ''external_id'' \<notin> set (matchingStrategy f)"
    by (simp_all add: safeParse_Inr_iff)
  then show "safeParse (raw\<lparr>raw_externalIdField := JUndefined\<rparr>)
      = Inr (f\<lparr>externalIdField := None\<rparr>)"
    by (simp add: safeParse_Inr_iff fields_accept_drop_externalIdField rules_hold_def)
qed

theorem callIdField_always_required_witness:
  "raw_callIdField noCallIdValues = JUndefined
   \<and> safeParse (noCallIdValues\<lparr>raw_storeCallId := JBool False\<rparr>)
        = Inl [mk_issue invalid_type (key ''callIdField'') None]
   \<and> safeParse (noCallIdValues\<lparr>raw_storeCallId := JBool True\<rparr>)
        = Inl [mk_issue invalid_type (key ''callIdField'') None]
   \<and> keyed_to ''callIdField'' [mk_issue invalid_type (key ''callIdField'') None]
   \<and> raw_fixedOwner defaultValues = JUndefined \<and> raw_externalIdField defaultValues = JUndefined
   \<and> safeParse defaultValues = Inr defaultForm"
proof (intro conjI)
  have undefined: "\<forall>s. raw_callIdField noCallIdValues \<noteq> JStr s"
    by (simp add: noCallIdValues_def defaultValues_def)
  show "raw_callIdField noCallIdValues = JUndefined"
    by (simp add: noCallIdValues_def)
  show off: "safeParse (noCallIdValues\<lparr>raw_storeCallId := JBool False\<rparr>)
        = Inl [mk_issue invalid_type (key ''callIdField'') None]"
    by (simp add: eval_defs noCallIdValues_def defaultValues_def)
  show "safeParse (noCallIdValues\<lparr>raw_storeCallId := JBool True\<rparr>)
        = Inl [mk_issue invalid_type (key ''callIdField'') None]"
    by (simp add: eval_defs noCallIdValues_def defaultValues_def)
  from callIdField_always_required [of noCallIdValues "JBool False", THEN conjunct1]
    undefined off
  show "keyed_to ''callIdField'' [mk_issue invalid_type (key ''callIdField'') None]"
    by simp
  show "raw_fixedOwner defaultValues = JUndefined"
    by (simp add: defaultValues_def)
  show "raw_externalIdField defaultValues = JUndefined"
    by (simp add: defaultValues_def)
  show "safeParse defaultValues = Inr defaultForm"
    by (rule safeParse_defaultValues)
qed

text \<open>
  C10, as stated, at the input with empty \<open>callIdField\<close> and \<open>storeCallId\<close>
  false: the input passes validation, and the canonical document holds
  \<^verbatim>\<open>null\<close>, not the empty string, for the interaction id field.
\<close>

theorem empty_callIdField_dropped_counterexample:
  "raw_callIdField emptyIdValues = JStr []
   \<and> safeParse emptyIdValues = Inr emptyIdForm
   \<and> ownership_interactionIdField (ownership (buildNormalizedIntake emptyIdForm)) = Null
   \<and> ownership_interactionIdField (ownership (buildNormalizedIntake emptyIdForm)) \<noteq> Val []"
proof (intro conjI)
  show "raw_callIdField emptyIdValues = JStr []"
    by (simp add: emptyIdValues_def)
  show "safeParse emptyIdValues = Inr emptyIdForm"
    by (simp add: eval_defs emptyIdValues_def emptyIdForm_def defaultValues_def defaultForm_def)
  show null: "ownership_interactionIdField (ownership (buildNormalizedIntake emptyIdForm)) = Null"
    by (simp add: build_ownership_interactionIdField emptyIdForm_def)
  then show "ownership_interactionIdField (ownership (buildNormalizedIntake emptyIdForm)) \<noteq> Val []"
    by simp
qed

text \<open>
  C10, amended. The rules of \<open>callIdField\<close> and \<open>idempotencyKey\<close> reject only a
  missing or non-string value. An accepted input stays accepted with either
  set to the empty string; the canonical document then holds the empty
  \<open>reliability.idempotencyKey\<close>, and the empty \<open>ownership.interactionIdField\<close>
  when \<open>storeCallId\<close> is true (\<^verbatim>\<open>null\<close> when it is false).
\<close>

theorem empty_identifiers_accepted:
  assumes "safeParse raw = Inr f"
  shows "safeParse (raw\<lparr>raw_callIdField := JStr []\<rparr>) = Inr (f\<lparr>callIdField := []\<rparr>)
       \<and> safeParse (raw\<lparr>raw_idempotencyKey := JStr []\<rparr>) = Inr (f\<lparr>idempotencyKey := []\<rparr>)
       \<and> reliability_idempotencyKey
            (reliability (buildNormalizedIntake (f\<lparr>idempotencyKey := []\<rparr>))) = []
       \<and> ownership_interactionIdField
            (ownership (buildNormalizedIntake (f\<lparr>callIdField := []\<rparr>)))
            = (if storeCallId f then Val [] else Null)
       \<and> (issues_of (field_callIdField any) = [] \<longleftrightarrow> (\<exists>s. raw_callIdField any = JStr s))
       \<and> (issues_of (field_idempotencyKey any) = [] \<longleftrightarrow> (\<exists>s. raw_idempotencyKey any = JStr s))"
proof -
  from assms have f: "fields_accept raw f" "rules_hold f"
    by (simp_all add: safeParse_Inr_iff)
  from f have "safeParse (raw\<lparr>raw_callIdField := JStr []\<rparr>) = Inr (f\<lparr>callIdField := []\<rparr>)"
    by (simp add: safeParse_Inr_iff fields_accept_empty_callIdField rules_hold_def)
  moreover from f
  have "safeParse (raw\<lparr>raw_idempotencyKey := JStr []\<rparr>) = Inr (f\<lparr>idempotencyKey := []\<rparr>)"
    by (simp add: safeParse_Inr_iff fields_accept_empty_idempotencyKey rules_hold_def)
  moreover have "issues_of (field_callIdField any) = [] \<longleftrightarrow> (\<exists>s. raw_callIdField any = JStr s)"
    by (simp add: field_callIdField_def z_string_trim_def split: jsval.splits)
  moreover
  have "issues_of (field_idempotencyKey any) = [] \<longleftrightarrow> (\<exists>s. raw_idempotencyKey any = JStr s)"
    by (simp add: field_idempotencyKey_def z_string_trim_def split: jsval.splits)
  ultimately show ?thesis
    by (simp add: build_reliability_idempotencyKey build_ownership_interactionIdField)
qed

theorem empty_identifiers_accepted_witness:
  "safeParse defaultValues = Inr defaultForm
   \<and> safeParse (defaultValues\<lparr>raw_callIdField := JStr []\<rparr>) = Inr (defaultForm\<lparr>callIdField := []\<rparr>)
   \<and> safeParse (defaultValues\<lparr>raw_idempotencyKey := JStr []\<rparr>)
        = Inr (defaultForm\<lparr>idempotencyKey := []\<rparr>)
   \<and> reliability_idempotencyKey
        (reliability (buildNormalizedIntake (defaultForm\<lparr>idempotencyKey := []\<rparr>))) = []
   \<and> ownership_interactionIdField
        (ownership (buildNormalizedIntake (defaultForm\<lparr>callIdField := []\<rparr>))) = Val []"
proof -
  have "storeCallId defaultForm"
    by (simp add: defaultForm_def)
  then show ?thesis
    using empty_identifiers_accepted [OF safeParse_defaultValues] safeParse_defaultValues
    by simp
qed

section \<open>The summary page's fallback\<close>

text \<open>
  C9. Applied to any ordered list of candidates, \<open>pickFirst\<close> returns the first
  candidate that is defined, non-null and not the empty string: every candidate
  before the returned one fails the test and the returned one passes it. When
  no candidate qualifies the result is \<open>undefined\<close>. The result depends on the
  argument list only.
\<close>

theorem pickFirst_first_qualifying:
  "(case find qualifies values of
      Some v \<Rightarrow> pickFirst values = v \<and> qualifies v
        \<and> (\<exists>skipped rest. values = skipped @ v # rest \<and> (\<forall>u \<in> set skipped. \<not> qualifies u))
    | None \<Rightarrow> pickFirst values = JUndefined \<and> (\<forall>u \<in> set values. \<not> qualifies u))"
proof (cases "find qualifies values")
  case None
  then have "\<forall>u \<in> set values. \<not> qualifies u"
    by (simp add: find_None_iff)
  with None show ?thesis by (simp add: pickFirst_none)
next
  case (Some v)
  then obtain i where i: "i < length values" "qualifies (values ! i)" "v = values ! i"
    "\<forall>j < i. \<not> qualifies (values ! j)"
    by (auto simp: find_Some_iff)
  let ?skipped = "take i values" and ?rest = "drop (Suc i) values"
  have decomp: "values = ?skipped @ v # ?rest"
    using i by (simp add: id_take_nth_drop)
  have skipped: "\<forall>u \<in> set ?skipped. \<not> qualifies u"
    using i by (auto simp: in_set_conv_nth)
  have "pickFirst values = pickFirst (?skipped @ v # ?rest)"
    using decomp by simp
  also have "\<dots> = v"
    using skipped i by (simp del: pickFirst.simps add: pickFirst_skip pickFirst_hit)
  finally show ?thesis
    using Some i decomp skipped by auto
qed

theorem pickFirst_first_qualifying_witness:
  "pickFirst [JUndefined, JNull, JStr [], JStr (lit ''hubspot''), JStr (lit ''salesforce'')]
     = JStr (lit ''hubspot'')
   \<and> pickFirst [JUndefined, JStr [], JNull] = JUndefined"
proof -
  have "find qualifies [JUndefined, JNull, JStr [], JStr (lit ''hubspot''), JStr (lit ''salesforce'')]
          = Some (JStr (lit ''hubspot''))"
    by (simp add: qualifies_def)
  moreover have "find qualifies [JUndefined, JStr [], JNull] = None"
    by (simp add: qualifies_def)
  ultimately show ?thesis
    using pickFirst_first_qualifying
            [of "[JUndefined, JNull, JStr [], JStr (lit ''hubspot''), JStr (lit ''salesforce'')]"]
          pickFirst_first_qualifying [of "[JUndefined, JStr [], JNull]"]
    by simp
qed

end
